theory Spec2Isabelle
  imports Complex_Main "HOL-Library.Word" "HOL-Library.Char_ord" "HOL-Library.List_Lexorder"
begin

unbundle bit_operations_syntax

section \<open>Conventions of the embedding\<close>

text \<open>
  The capture client (C++) and the servers (C\#) compute on IEEE single and double
  precision numbers.  The embedding reads every \<open>float\<close> and \<open>double\<close> as a real number:
  the theorems below are about the arithmetic the code writes down, not about its
  rounding.  A conversion \<open>static_cast<int>(v)\<close> (C++) or \<open>(short)\<close>, \<open>(byte)\<close> (C\#) of
  such a number truncates towards zero.
\<close>

definition trunc_int :: "real \<Rightarrow> int" where
  "trunc_int v = (if 0 \<le> v then \<lfloor>v\<rfloor> else \<lceil>v\<rceil>)"

section \<open>utils.h: points and colours\<close>

record Point3f =
  X :: real
  Y :: real
  Z :: real
  Invalid :: bool

text \<open>The three constructors of \<open>Point3f\<close>.\<close>

definition Point3f_default :: Point3f where
  "Point3f_default = \<lparr>X = 0, Y = 0, Z = 0, Invalid = False\<rparr>"

definition Point3f_xyz :: "real \<Rightarrow> real \<Rightarrow> real \<Rightarrow> Point3f" where
  "Point3f_xyz x y z = \<lparr>X = x, Y = y, Z = z, Invalid = False\<rparr>"

definition Point3f_xyzi :: "real \<Rightarrow> real \<Rightarrow> real \<Rightarrow> bool \<Rightarrow> Point3f" where
  "Point3f_xyzi x y z i = \<lparr>X = x, Y = y, Z = z, Invalid = i\<rparr>"

text \<open>\<open>Point3s\<close>: millimetres in 16-bit signed integers.\<close>

record Point3s =
  Xs :: "16 word"
  Ys :: "16 word"
  Zs :: "16 word"

text \<open>
  \<open>Point3s(Point3f &other)\<close>: \<open>static_cast<short>(1000 * other.X)\<close> per axis.  The
  conversion is defined by C++ only when the truncated value fits a \<open>short\<close>; the model
  keeps the low 16 bits otherwise.
\<close>

definition Point3s_of_Point3f :: "Point3f \<Rightarrow> Point3s" where
  "Point3s_of_Point3f other =
     \<lparr>Xs = word_of_int (trunc_int (1000 * X other)),
      Ys = word_of_int (trunc_int (1000 * Y other)),
      Zs = word_of_int (trunc_int (1000 * Z other))\<rparr>"

record RGB =
  Blue :: "8 word"
  Green :: "8 word"
  Red :: "8 word"

definition RGB_default :: RGB where
  "RGB_default = \<lparr>Blue = 0, Green = 0, Red = 0\<rparr>"

text \<open>Utils.cpp: \<open>RotatePoint(Point3f&, R)\<close> is \<open>R * point\<close>; the result is a fresh,
  valid \<open>Point3f\<close>.\<close>

definition RotatePoint :: "Point3f \<Rightarrow> real list list \<Rightarrow> Point3f" where
  "RotatePoint point R =
     \<lparr>X = X point * R ! 0 ! 0 + Y point * R ! 0 ! 1 + Z point * R ! 0 ! 2,
      Y = X point * R ! 1 ! 0 + Y point * R ! 1 ! 1 + Z point * R ! 1 ! 2,
      Z = X point * R ! 2 ! 0 + Y point * R ! 2 ! 1 + Z point * R ! 2 ! 2,
      Invalid = False\<rparr>"

section \<open>voxelGridFilter.cpp\<close>

text \<open>
  \<open>voxelGrid\<close> is a \<open>std::vector<bool>\<close> of \<open>gridSizeX * gridSizeY * gridSizeZ\<close> bits;
  it is modelled by the function from an index to its bit.  \<open>Insert\<close> reads and writes
  only indices of cells inside the grid.
\<close>

record VoxelGridFilter =
  gridSizeX :: nat
  gridSizeY :: nat
  gridSizeZ :: nat
  invVoxelSize :: real
  minX :: real
  minY :: real
  minZ :: real
  voxelGrid :: "nat \<Rightarrow> bool"

datatype error = invalid_argument

definition VoxelGridFilter_new ::
  "real \<Rightarrow> real \<Rightarrow> real \<Rightarrow> real \<Rightarrow> real \<Rightarrow> error + VoxelGridFilter" where
  "VoxelGridFilter_new voxelSize centerX centerY centerZ halfRange =
     (if voxelSize \<le> 0 then Inl invalid_argument
      else let inv = 1 / voxelSize in
        Inr \<lparr>gridSizeX = nat \<lceil>(halfRange * 2) * inv\<rceil>,
             gridSizeY = nat \<lceil>(halfRange * 2) * inv\<rceil>,
             gridSizeZ = nat \<lceil>(halfRange * 2) * inv\<rceil>,
             invVoxelSize = inv,
             minX = centerX - halfRange,
             minY = centerY - halfRange,
             minZ = centerZ - halfRange,
             voxelGrid = (\<lambda>_. False)\<rparr>)"

definition Reset :: "VoxelGridFilter \<Rightarrow> VoxelGridFilter" where
  "Reset g = g\<lparr>voxelGrid := (\<lambda>_. False)\<rparr>"

definition VoxelIndex :: "VoxelGridFilter \<Rightarrow> int \<Rightarrow> int \<Rightarrow> int \<Rightarrow> nat" where
  "VoxelIndex g x y z = nat z * gridSizeY g * gridSizeX g + nat y * gridSizeX g + nat x"

text \<open>The three voxel indices \<open>Insert\<close> computes for a point.\<close>

definition voxel_of :: "VoxelGridFilter \<Rightarrow> real \<Rightarrow> real \<Rightarrow> real \<Rightarrow> int \<times> int \<times> int" where
  "voxel_of g x y z =
     (trunc_int ((x - minX g) * invVoxelSize g),
      trunc_int ((y - minY g) * invVoxelSize g),
      trunc_int ((z - minZ g) * invVoxelSize g))"

definition Insert :: "VoxelGridFilter \<Rightarrow> real \<Rightarrow> real \<Rightarrow> real \<Rightarrow> bool \<times> VoxelGridFilter" where
  "Insert g x y z =
     (case voxel_of g x y z of (ix, iy, iz) \<Rightarrow>
        if ix < 0 \<or> iy < 0 \<or> iz < 0 \<or>
           ix \<ge> int (gridSizeX g) \<or> iy \<ge> int (gridSizeY g) \<or> iz \<ge> int (gridSizeZ g)
        then (False, g)
        else let idx = VoxelIndex g ix iy iz in
          if voxelGrid g idx then (False, g)
          else (True, g\<lparr>voxelGrid := (voxelGrid g)(idx := True)\<rparr>))"

text \<open>The constants of liveScanClient.h and the grid the capture client builds from
  them: \<open>voxelGridFilter(MinPrecision, XRangeCenter, YRangeCenter, ZRangeCenter, HalfRange)\<close>.\<close>

definition Range :: real where "Range = 3 / 10"
definition HalfRange :: real where "HalfRange = Range / 2"
definition MinPrecision :: real where "MinPrecision = Range / 255"
definition XRangeCenter :: real where "XRangeCenter = 0"
definition YRangeCenter :: real where "YRangeCenter = 0"
definition ZRangeCenter :: real where "ZRangeCenter = HalfRange"

definition client_grid :: VoxelGridFilter where
  "client_grid =
     \<lparr>gridSizeX = 255, gridSizeY = 255, gridSizeZ = 255,
      invVoxelSize = 850,
      minX = - (3 / 20), minY = - (3 / 20), minZ = 0,
      voxelGrid = (\<lambda>_. False)\<rparr>"


section \<open>liveScanClient.cpp: \<open>ProcessFrame\<close>\<close>

record MarkerPose =
  MarkerId :: int
  pose_R :: "real list list"
  pose_T :: "real list"

text \<open>calibration.h: the fields of \<open>Calibration\<close>.  \<open>worldR\<close> is a
  \<open>vector<vector<float>>\<close>, \<open>worldT\<close> a \<open>vector<float>\<close>.\<close>

record Calibration =
  worldT :: "real list"
  worldR :: "real list list"
  usedMarkerId :: int
  markerPoses :: "MarkerPose list"
  isCalibrated :: bool
  numSamples :: int
  markerSamplePositions :: "Point3f list list"

text \<open>The fields of \<open>LiveScanClient\<close> that \<open>ProcessFrame\<close> reads and writes.\<close>

record LiveScanClient =
  calibration :: Calibration
  voxelGridFilter :: VoxelGridFilter
  bounds :: "real list"
  isFilterEnabled :: bool
  numFilterNeighbors :: int
  filterThreshold :: real
  lastFrameVertices :: "Point3s list"
  lastFrameColors :: "RGB list"

definition invalidPoint :: Point3f where
  "invalidPoint = Point3f_xyzi 0 0 0 True"

text \<open>Lines 436--439: \<open>temp += worldT; temp = RotatePoint(temp, worldR)\<close>.\<close>

definition apply_world_transform :: "Calibration \<Rightarrow> Point3f \<Rightarrow> Point3f" where
  "apply_world_transform c temp =
     RotatePoint (temp\<lparr>X := X temp + worldT c ! 0,
                       Y := Y temp + worldT c ! 1,
                       Z := Z temp + worldT c ! 2\<rparr>) (worldR c)"

definition outside_bounds :: "real list \<Rightarrow> Point3f \<Rightarrow> bool" where
  "outside_bounds b temp \<longleftrightarrow>
     X temp < b ! 0 \<or> X temp > b ! 3 \<or> Y temp < b ! 1 \<or> Y temp > b ! 4
     \<or> Z temp < b ! 2 \<or> Z temp > b ! 5"

text \<open>
  The first loop of \<open>ProcessFrame\<close> (lines 429--459), over the captured vertices in
  order.  It returns \<open>allVertices\<close>, \<open>goodVerticesCount\<close> and the voxel grid.
\<close>

fun calibrate_and_clip ::
  "Calibration \<Rightarrow> real list \<Rightarrow> Point3f list \<Rightarrow> VoxelGridFilter
     \<Rightarrow> Point3f list \<times> nat \<times> VoxelGridFilter" where
  "calibrate_and_clip c b [] g = ([], 0, g)"
| "calibrate_and_clip c b (v # vs) g =
     (if isCalibrated c then
        (let temp = apply_world_transform c v in
         if outside_bounds b temp then
           (case calibrate_and_clip c b vs g of
              (allVertices, n, g') \<Rightarrow> (invalidPoint # allVertices, n, g'))
         else
           (case Insert g (X temp) (Y temp) (Z temp) of
              (inserted, g1) \<Rightarrow>
                if \<not> inserted then
                  (case calibrate_and_clip c b vs g1 of
                     (allVertices, n, g') \<Rightarrow> (invalidPoint # allVertices, n, g'))
                else
                  (case calibrate_and_clip c b vs g1 of
                     (allVertices, n, g') \<Rightarrow> (temp # allVertices, Suc n, g'))))
      else
        (case calibrate_and_clip c b vs g of
           (allVertices, n, g') \<Rightarrow> (v # allVertices, Suc n, g')))"

text \<open>The density filter (lines 461--505).\<close>

definition voxelSize :: real where "voxelSize = 6 / 1000"
definition minPointsPerVoxel :: int where "minPointsPerVoxel = 12"

definition HashVoxel :: "int \<Rightarrow> int \<Rightarrow> int \<Rightarrow> 64 word" where
  "HashVoxel x y z =
     push_bit 42 (word_of_int x AND 0x1FFFFF) OR
     push_bit 21 (word_of_int y AND 0x1FFFFF) OR
     (word_of_int z AND 0x1FFFFF)"

definition voxel_key :: "Point3f \<Rightarrow> 64 word" where
  "voxel_key pt =
     HashVoxel \<lfloor>X pt / voxelSize\<rfloor> \<lfloor>Y pt / voxelSize\<rfloor> \<lfloor>Z pt / voxelSize\<rfloor>"

text \<open>\<open>voxelCounts\<close> is a \<open>std::map<uint64_t, int>\<close>; a key that is absent counts 0.\<close>

fun count_voxels ::
  "Point3f list \<Rightarrow> (64 word \<Rightarrow> int) \<Rightarrow> 64 word list \<times> (64 word \<Rightarrow> int)" where
  "count_voxels [] voxelCounts = ([], voxelCounts)"
| "count_voxels (pt # pts) voxelCounts =
     (if \<not> Invalid pt then
        (let key = voxel_key pt in
         case count_voxels pts (voxelCounts(key := voxelCounts key + 1)) of
           (keys, counts) \<Rightarrow> (key # keys, counts))
      else
        (case count_voxels pts voxelCounts of
           (keys, counts) \<Rightarrow> (0 # keys, counts)))"

definition mark_isolated ::
  "Point3f list \<Rightarrow> 64 word list \<Rightarrow> (64 word \<Rightarrow> int) \<Rightarrow> Point3f list" where
  "mark_isolated allVertices vertexVoxelKeys voxelCounts =
     map (\<lambda>(pt, key).
            if \<not> Invalid pt \<and> voxelCounts key < minPointsPerVoxel then invalidPoint else pt)
         (zip allVertices vertexVoxelKeys)"

text \<open>
  The copy loop (lines 507--520): \<open>goodVertices\<close> and \<open>goodColorPoints\<close> are allocated
  with \<open>goodVerticesCount\<close> default entries and filled from the front with the vertices
  that are still valid; \<open>i\<close> is the index of the vertex, \<open>n\<close> is
  \<open>goodVerticesShortCounter\<close>.
\<close>

fun copy_valid ::
  "Point3f list \<Rightarrow> RGB list \<Rightarrow> nat \<Rightarrow> Point3f list \<times> RGB list \<times> nat
     \<Rightarrow> Point3f list \<times> RGB list \<times> nat" where
  "copy_valid [] colors i acc = acc"
| "copy_valid (v # vs) colors i (goodVertices, goodColorPoints, n) =
     (if \<not> Invalid v then
        copy_valid vs colors (Suc i)
          (goodVertices[n := v], goodColorPoints[n := colors ! i], Suc n)
      else copy_valid vs colors (Suc i) (goodVertices, goodColorPoints, n))"

text \<open>
  \<open>ProcessFrame\<close> up to the copy loop: the float cloud \<open>goodVertices\<close>, its colours, the
  number \<open>goodVerticesShortCounter\<close> of entries copied from the frame, and the voxel
  grid.  The arguments \<open>vertices\<close> and \<open>colors\<close> are
  \<open>captureManager->lastFrameVertices\<close> and \<open>captureManager->lastFrameColors\<close>.
\<close>

definition ProcessFrame_points ::
  "LiveScanClient \<Rightarrow> Point3f list \<Rightarrow> RGB list
     \<Rightarrow> Point3f list \<times> RGB list \<times> nat \<times> VoxelGridFilter" where
  "ProcessFrame_points cl vertices colors =
     (case calibrate_and_clip (calibration cl) (bounds cl) vertices
             (Reset (voxelGridFilter cl)) of
        (allVertices, goodVerticesCount, g) \<Rightarrow>
          (case count_voxels allVertices (\<lambda>_. 0) of
             (vertexVoxelKeys, voxelCounts) \<Rightarrow>
               (case copy_valid (mark_isolated allVertices vertexVoxelKeys voxelCounts)
                       colors 0
                       (replicate goodVerticesCount Point3f_default,
                        replicate goodVerticesCount RGB_default, 0) of
                  (goodVertices, goodColorPoints, n) \<Rightarrow>
                    (goodVertices, goodColorPoints, n, g))))"

text \<open>
  \<open>ProcessFrame\<close>.  The KNN filter \<open>Filter\<close> (filter.h) is a parameter: it edits the
  two vectors in place, here it returns them.
\<close>

definition ProcessFrame ::
  "(Point3f list \<Rightarrow> RGB list \<Rightarrow> int \<Rightarrow> real \<Rightarrow> Point3f list \<times> RGB list)
     \<Rightarrow> LiveScanClient \<Rightarrow> Point3f list \<Rightarrow> RGB list \<Rightarrow> LiveScanClient" where
  "ProcessFrame Filter cl vertices colors =
     (case ProcessFrame_points cl vertices colors of
        (goodVertices, goodColorPoints, n, g) \<Rightarrow>
          (case (if isFilterEnabled cl
                 then Filter goodVertices goodColorPoints
                        (numFilterNeighbors cl) (filterThreshold cl)
                 else (goodVertices, goodColorPoints)) of
             (filteredVertices, filteredColors) \<Rightarrow>
               cl\<lparr>voxelGridFilter := g,
                  lastFrameVertices := map Point3s_of_Point3f filteredVertices,
                  lastFrameColors := filteredColors\<rparr>))"

text \<open>The voxel cell of the specification's words:
  \<open>(\<lfloor>x/minPrecision\<rfloor>, \<lfloor>y/minPrecision\<rfloor>, \<lfloor>z/minPrecision\<rfloor>)\<close>.\<close>

definition spec_voxel :: "Point3f \<Rightarrow> int \<times> int \<times> int" where
  "spec_voxel p =
     (\<lfloor>X p / MinPrecision\<rfloor>, \<lfloor>Y p / MinPrecision\<rfloor>, \<lfloor>Z p / MinPrecision\<rfloor>)"

text \<open>The cell of the client's own grid that a point falls into.\<close>

definition grid_cell :: "VoxelGridFilter \<Rightarrow> Point3f \<Rightarrow> int \<times> int \<times> int" where
  "grid_cell g p = voxel_of g (X p) (Y p) (Z p)"

text \<open>The client as its constructor leaves it, with a given calibration.\<close>

definition Calibration_new :: Calibration where
  "Calibration_new =
     \<lparr>worldT = [0, 0, 0],
      worldR = [[1, 0, 0], [0, 1, 0], [0, 0, 1]],
      usedMarkerId = - 1,
      markerPoses = [],
      isCalibrated = False,
      numSamples = 0,
      markerSamplePositions = []\<rparr>"

definition LiveScanClient_new :: LiveScanClient where
  "LiveScanClient_new =
     \<lparr>calibration = Calibration_new,
      voxelGridFilter = client_grid,
      bounds = [- (1 / 2), - (1 / 2), - (1 / 2), 1 / 2, 1 / 2, 1 / 2],
      isFilterEnabled = False,
      numFilterNeighbors = 10,
      filterThreshold = 1 / 100,
      lastFrameVertices = [],
      lastFrameColors = []\<rparr>"

section \<open>calibration.cpp\<close>

text \<open>The project's \<open>Point2f\<close> (utils.h); its fields are \<open>X\<close> and \<open>Y\<close> in the source.\<close>

record Point2f =
  X2 :: real
  Y2 :: real

text \<open>\<open>MarkerInfo\<close> as \<open>Calibrate\<close> uses it: \<open>marker.Id\<close>, \<open>marker.Corners\<close> (image
  coordinates) and \<open>marker.Points\<close> (marker-local coordinates).\<close>

record MarkerInfo =
  marker_Id :: int
  Corners :: "Point2f list"
  Points :: "Point3f list"

definition NumRequiredSamples :: int where "NumRequiredSamples = 20"

text \<open>Lines 75--93: the first configured pose with the marker's id,
  \<open>markerPoses[indexInPoses]\<close>; \<open>None\<close> is \<open>indexInPoses == -1\<close>.\<close>

fun find_marker_pose :: "MarkerPose list \<Rightarrow> int \<Rightarrow> MarkerPose option" where
  "find_marker_pose [] markerId = None"
| "find_marker_pose (p # ps) markerId =
     (if markerId = MarkerId p then Some p else find_marker_pose ps markerId)"

text \<open>
  \<open>Get3DMarkerCorners\<close>: bilinear interpolation of the four neighbouring points of the
  depth frame, which is indexed as an array through its pointer.  \<open>None\<close> is the return
  value \<open>false\<close>.
\<close>

definition interpolate_corner :: "(int \<Rightarrow> Point3f) \<Rightarrow> int \<Rightarrow> Point2f \<Rightarrow> Point3f option" where
  "interpolate_corner depthFrame frameWidth corner =
     (let minX = trunc_int (X2 corner); maxX = minX + 1;
          minY = trunc_int (Y2 corner); maxY = minY + 1;
          dx = X2 corner - real_of_int minX;
          dy = Y2 corner - real_of_int minY;
          pointMin = depthFrame (minX + minY * frameWidth);
          pointXMaxYMin = depthFrame (maxX + minY * frameWidth);
          pointXMinYMax = depthFrame (minX + maxY * frameWidth);
          pointMax = depthFrame (maxX + maxY * frameWidth)
      in if Z pointMin \<le> 0 \<or> Z pointXMaxYMin \<le> 0 \<or> Z pointXMinYMax \<le> 0 \<or> Z pointMax \<le> 0
         then None
         else Some
           \<lparr>X = (1 - dx) * (1 - dy) * X pointMin + dx * (1 - dy) * X pointXMaxYMin
                  + (1 - dx) * dy * X pointXMinYMax + dx * dy * X pointMax,
            Y = (1 - dx) * (1 - dy) * Y pointMin + dx * (1 - dy) * Y pointXMaxYMin
                  + (1 - dx) * dy * Y pointXMinYMax + dx * dy * Y pointMax,
            Z = (1 - dx) * (1 - dy) * Z pointMin + dx * (1 - dy) * Z pointXMaxYMin
                  + (1 - dx) * dy * Z pointXMinYMax + dx * dy * Z pointMax,
            Invalid = False\<rparr>)"

fun Get3DMarkerCorners ::
  "(int \<Rightarrow> Point3f) \<Rightarrow> int \<Rightarrow> Point2f list \<Rightarrow> Point3f list option" where
  "Get3DMarkerCorners depthFrame frameWidth [] = Some []"
| "Get3DMarkerCorners depthFrame frameWidth (corner # corners) =
     (case interpolate_corner depthFrame frameWidth corner of
        None \<Rightarrow> None
      | Some p \<Rightarrow>
          (case Get3DMarkerCorners depthFrame frameWidth corners of
             None \<Rightarrow> None
           | Some ps \<Rightarrow> Some (p # ps)))"

text \<open>Lines 113--123: the mean of corner \<open>i\<close> over the first \<open>NumRequiredSamples\<close>
  samples.\<close>

definition average_corner :: "Point3f list list \<Rightarrow> nat \<Rightarrow> Point3f" where
  "average_corner samples i =
     fold (\<lambda>j acc. acc\<lparr>X := X acc + X (samples ! j ! i) / real_of_int NumRequiredSamples,
                        Y := Y acc + Y (samples ! j ! i) / real_of_int NumRequiredSamples,
                        Z := Z acc + Z (samples ! j ! i) / real_of_int NumRequiredSamples\<rparr>)
          [0..<nat NumRequiredSamples] Point3f_default"

text \<open>
  \<open>Procrustes\<close>.  The translation is minus the centroid of the averaged corners.  The
  rotation comes out of OpenCV's SVD; the model takes the entries \<open>R.at<double>(i, j)\<close> of
  that matrix as the parameter \<open>svd_rotation\<close>, applied to the marker and the averaged
  corners, and copies them into a 3 by 3 \<open>worldToMarkerR\<close> as the code does.
\<close>

definition Procrustes ::
  "(MarkerInfo \<Rightarrow> Point3f list \<Rightarrow> nat \<Rightarrow> nat \<Rightarrow> real)
     \<Rightarrow> MarkerInfo \<Rightarrow> Point3f list \<Rightarrow> real list \<times> real list list" where
  "Procrustes svd_rotation marker markerInWorld =
     (let nVertices = length (Points marker);
          markerCenterInWorld =
            fold (\<lambda>i acc. acc\<lparr>X := X acc + X (markerInWorld ! i) / real nVertices,
                               Y := Y acc + Y (markerInWorld ! i) / real nVertices,
                               Z := Z acc + Z (markerInWorld ! i) / real nVertices\<rparr>)
                 [0..<nVertices] Point3f_default;
          worldToMarkerT =
            [- X markerCenterInWorld, - Y markerCenterInWorld, - Z markerCenterInWorld];
          worldToMarkerR =
            map (\<lambda>i. map (\<lambda>j. svd_rotation marker markerInWorld i j) [0..<3]) [0..<3]
      in (worldToMarkerT, worldToMarkerR))"

text \<open>\<open>InverseRotatePoint(vector<float>&, R)\<close> of calibration.cpp.\<close>

definition InverseRotatePoint :: "real list \<Rightarrow> real list list \<Rightarrow> real list" where
  "InverseRotatePoint point R =
     [point ! 0 * R ! 0 ! 0 + point ! 1 * R ! 1 ! 0 + point ! 2 * R ! 2 ! 0,
      point ! 0 * R ! 0 ! 1 + point ! 1 * R ! 1 ! 1 + point ! 2 * R ! 2 ! 1,
      point ! 0 * R ! 0 ! 2 + point ! 1 * R ! 1 ! 2 + point ! 2 * R ! 2 ! 2]"

text \<open>Lines 128--140: \<open>worldR[i][j] = 0\<close>, then
  \<open>worldR[i][j] += markerPose.R[i][k] * Rcopy[k][j]\<close> for \<open>k = 0, 1, 2\<close>.\<close>

definition set_entry :: "real list list \<Rightarrow> nat \<Rightarrow> nat \<Rightarrow> real \<Rightarrow> real list list" where
  "set_entry M i j v = M[i := (M ! i)[j := v]]"

definition compose_entry ::
  "real list list \<Rightarrow> real list list \<Rightarrow> nat \<Rightarrow> nat \<Rightarrow> real list list \<Rightarrow> real list list" where
  "compose_entry poseR Rcopy i j W =
     fold (\<lambda>k W2. set_entry W2 i j (W2 ! i ! j + poseR ! i ! k * Rcopy ! k ! j))
          [0..<3] (set_entry W i j 0)"

definition compose_row ::
  "real list list \<Rightarrow> real list list \<Rightarrow> nat \<Rightarrow> real list list \<Rightarrow> real list list" where
  "compose_row poseR Rcopy i W = fold (compose_entry poseR Rcopy i) [0..<3] W"

definition compose_rotation :: "real list list \<Rightarrow> real list list \<Rightarrow> real list list" where
  "compose_rotation poseR Rcopy = fold (compose_row poseR Rcopy) [0..<3] Rcopy"

text \<open>Lines 113--158: the tail of \<open>Calibrate\<close>, once enough samples are there.\<close>

definition finalise_calibration ::
  "(MarkerInfo \<Rightarrow> Point3f list \<Rightarrow> nat \<Rightarrow> nat \<Rightarrow> real)
     \<Rightarrow> MarkerInfo \<Rightarrow> MarkerPose \<Rightarrow> Point3f list \<Rightarrow> Calibration \<Rightarrow> Calibration" where
  "finalise_calibration svd_rotation marker markerPose marker3D c =
     (let averaged = map (average_corner (markerSamplePositions c)) [0..<length marker3D] in
      case Procrustes svd_rotation marker averaged of
        (procT, procR) \<Rightarrow>
          (let newR = compose_rotation (pose_R markerPose) procR;
               translationIncr =
                 InverseRotatePoint
                   [pose_T markerPose ! 0, pose_T markerPose ! 1, pose_T markerPose ! 2] newR
           in c\<lparr>worldT := [procT ! 0 + translationIncr ! 0,
                           procT ! 1 + translationIncr ! 1,
                           procT ! 2 + translationIncr ! 2],
                worldR := newR,
                isCalibrated := True,
                markerSamplePositions := [],
                numSamples := 0\<rparr>))"

text \<open>
  \<open>Calibration::Calibrate\<close>.  The two frames are pointers: \<open>None\<close> is \<open>NULL\<close>.  The
  marker detector (OpenCV) is the parameter \<open>detect\<close>: \<open>None\<close> when
  \<open>DetectMarkersInImage\<close> returns false, the marker it found otherwise.  The result is the
  returned flag and the calibration after the call.
\<close>

definition Calibrate ::
  "('img \<Rightarrow> int \<Rightarrow> int \<Rightarrow> MarkerInfo option)
     \<Rightarrow> (MarkerInfo \<Rightarrow> Point3f list \<Rightarrow> nat \<Rightarrow> nat \<Rightarrow> real)
     \<Rightarrow> 'img option \<Rightarrow> (int \<Rightarrow> Point3f) option \<Rightarrow> int \<Rightarrow> int
     \<Rightarrow> Calibration \<Rightarrow> bool \<times> Calibration" where
  "Calibrate detect svd_rotation colorFrame depthFrame frameWidth frameHeight c =
     (case colorFrame of
        None \<Rightarrow> (False, c)
      | Some color \<Rightarrow>
     (case depthFrame of
        None \<Rightarrow> (False, c)
      | Some depth \<Rightarrow>
     (case detect color frameHeight frameWidth of
        None \<Rightarrow> (False, c)
      | Some marker \<Rightarrow>
     (case find_marker_pose (markerPoses c) (marker_Id marker) of
        None \<Rightarrow> (False, c)
      | Some markerPose \<Rightarrow>
          (let c1 = c\<lparr>usedMarkerId := MarkerId markerPose\<rparr> in
           case Get3DMarkerCorners depth frameWidth (Corners marker) of
             None \<Rightarrow> (False, c1)
           | Some marker3D \<Rightarrow>
               (let c2 = c1\<lparr>markerSamplePositions := markerSamplePositions c1 @ [marker3D],
                             numSamples := numSamples c1 + 1\<rparr>
                in if numSamples c2 < NumRequiredSamples then (False, c2)
                   else (True,
                     finalise_calibration svd_rotation marker markerPose marker3D c2)))))))"






text \<open>A concrete calibration session, used to run \<open>Calibrate\<close>: one configured marker
  (id 0, pose \<open>R\<close> a quarter turn about \<open>z\<close>, \<open>T = (1, 2, 3)\<close>), a detector that always
  finds it with a single corner at pixel \<open>(1, 1)\<close>, a depth frame that is flat at
  \<open>z = 1\<close> and one without depth, and a quarter turn about \<open>x\<close> as the SVD's rotation.\<close>

definition example_pose :: MarkerPose where
  "example_pose =
     \<lparr>MarkerId = 0, pose_R = [[0, - 1, 0], [1, 0, 0], [0, 0, 1]], pose_T = [1, 2, 3]\<rparr>"

definition example_marker :: MarkerInfo where
  "example_marker =
     \<lparr>marker_Id = 0, Corners = [\<lparr>X2 = 1, Y2 = 1\<rparr>], Points = [Point3f_xyz 0 (- 1) 0]\<rparr>"

definition example_detect :: "unit \<Rightarrow> int \<Rightarrow> int \<Rightarrow> MarkerInfo option" where
  "example_detect img height width = Some example_marker"

definition example_svd :: "MarkerInfo \<Rightarrow> Point3f list \<Rightarrow> nat \<Rightarrow> nat \<Rightarrow> real" where
  "example_svd marker pts i j = [[1, 0, 0], [0, 0, - 1], [0, 1, 0]] ! i ! j"

definition flat_depth :: "int \<Rightarrow> Point3f" where
  "flat_depth i = Point3f_xyz 0 0 1"

definition no_depth :: "int \<Rightarrow> Point3f" where
  "no_depth i = Point3f_default"

definition configured_calibration :: Calibration where
  "configured_calibration = Calibration_new\<lparr>markerPoses := [example_pose]\<rparr>"

definition nineteen_samples :: Calibration where
  "nineteen_samples =
     configured_calibration
       \<lparr>usedMarkerId := 0, numSamples := 19,
        markerSamplePositions := replicate 19 [Point3f_xyz 0 0 2]\<rparr>"

section \<open>calibration.cpp: \<open>SaveCalibration\<close> and \<open>LoadCalibration\<close>\<close>

text \<open>
  The calibration file is text.  The model covers the texts that the stream operators
  produce for integers and for floats whose value is an integer of magnitude below
  \<open>10\<^sup>6\<close>: with the default format such a float prints as the decimal digits of that
  integer (\<open>1.0f\<close> prints as \<open>1\<close>).  \<open>put_float\<close> is \<open>None\<close> outside this fragment.
\<close>

definition digit_char :: "nat \<Rightarrow> char" where
  "digit_char d = char_of (48 + d)"

fun show_nat :: "nat \<Rightarrow> string" where
  "show_nat n = (if n < 10 then [digit_char n] else show_nat (n div 10) @ [digit_char (n mod 10)])"

definition show_int :: "int \<Rightarrow> string" where
  "show_int i = (if i < 0 then CHR ''-'' # show_nat (nat (- i)) else show_nat (nat i))"

definition put_float :: "real \<Rightarrow> string option" where
  "put_float v =
     (if v = real_of_int \<lfloor>v\<rfloor> \<and> \<bar>v\<bar> < 1000000 then Some (show_int \<lfloor>v\<rfloor>) else None)"

text \<open>\<open>file << a << b\<close>: the texts one after the other; \<open>None\<close> when one of them is
  outside the fragment.\<close>

fun put_all :: "string option list \<Rightarrow> string option" where
  "put_all [] = Some []"
| "put_all (None # ts) = None"
| "put_all (Some t # ts) = (case put_all ts of None \<Rightarrow> None | Some r \<Rightarrow> Some (t @ r))"

definition endl :: string where
  "endl = [CHR 0x0A]"

text \<open>
  \<open>SaveCalibration\<close>: the text written to \<open>calibration_<serial>.txt\<close>.  The loop over
  \<open>worldT\<close> writes a blank after every number; the loop over \<open>worldR\<close> writes the three
  numbers of a row with nothing between them.  A \<open>bool\<close> prints as \<open>0\<close> or \<open>1\<close>.
\<close>

definition SaveCalibration :: "Calibration \<Rightarrow> string option" where
  "SaveCalibration c =
     put_all
       (concat (map (\<lambda>i. [put_float (worldT c ! i), Some '' '']) [0..<3])
        @ [Some endl]
        @ concat (map (\<lambda>i. map (\<lambda>j. put_float (worldR c ! i ! j)) [0..<3] @ [Some endl])
                      [0..<3])
        @ [Some (show_int (usedMarkerId c)), Some endl]
        @ [Some (if isCalibrated c then ''1'' else ''0''), Some endl])"

text \<open>
  The input stream: the text not yet read and the fail bit.  An extraction first skips
  white space.  On a stream that has failed, or that is at its end after the white
  space, it leaves the variable as it was; where the text does not start a number it
  stores 0 and sets the fail bit.  The reader is modelled on the characters the writer
  above produces: an optional minus sign and decimal digits make a number.
\<close>

record istream =
  rest :: string
  failbit :: bool

definition is_space :: "char \<Rightarrow> bool" where
  "is_space ch \<longleftrightarrow> ch = CHR '' '' \<or> ch = CHR 0x0A \<or> ch = CHR 0x0D \<or> ch = CHR 0x09"

definition is_digit :: "char \<Rightarrow> bool" where
  "is_digit ch \<longleftrightarrow> 48 \<le> (of_char ch :: nat) \<and> (of_char ch :: nat) \<le> 57"

definition digits_value :: "string \<Rightarrow> int" where
  "digits_value ds = foldl (\<lambda>acc ch. 10 * acc + (int (of_char ch) - 48)) 0 ds"

text \<open>\<open>get_number s old\<close>: the stream after the extraction and the value of the
  variable after it, \<open>old\<close> being its value before.\<close>

definition get_number :: "istream \<Rightarrow> int \<Rightarrow> istream \<times> int" where
  "get_number s old =
     (if failbit s then (s, old)
      else let t = dropWhile is_space (rest s) in
        if t = [] then (\<lparr>rest = [], failbit = True\<rparr>, old)
        else let negative = (hd t = CHR ''-'');
                 u = (if negative then tl t else t);
                 ds = takeWhile is_digit u
             in if ds = [] then (\<lparr>rest = u, failbit = True\<rparr>, 0)
                else (\<lparr>rest = dropWhile is_digit u, failbit = False\<rparr>,
                      if negative then - digits_value ds else digits_value ds))"

definition get_float :: "istream \<Rightarrow> real \<Rightarrow> istream \<times> real" where
  "get_float s old =
     (case get_number s \<lfloor>old\<rfloor> of
        (s', v) \<Rightarrow> (s', if failbit s \<or> dropWhile is_space (rest s) = [] then old
                         else real_of_int v))"

text \<open>\<open>file >> isCalibrated\<close> reads a number: 0 is false, 1 is true, any other number
  stores true and sets the fail bit.\<close>

definition get_bool :: "istream \<Rightarrow> bool \<Rightarrow> istream \<times> bool" where
  "get_bool s old =
     (if failbit s \<or> dropWhile is_space (rest s) = [] then (fst (get_number s 0), old)
      else case get_number s 0 of
        (s', v) \<Rightarrow> if failbit s' then (s', False)
                   else if v = 0 then (s', False)
                   else if v = 1 then (s', True)
                   else (s'\<lparr>failbit := True\<rparr>, True))"

text \<open>The loops of \<open>LoadCalibration\<close>.\<close>

fun load_worldT :: "nat list \<Rightarrow> istream \<times> Calibration \<Rightarrow> istream \<times> Calibration" where
  "load_worldT [] sc = sc"
| "load_worldT (i # is) (s, c) =
     (case get_float s (worldT c ! i) of
        (s', v) \<Rightarrow> load_worldT is (s', c\<lparr>worldT := (worldT c)[i := v]\<rparr>))"

fun load_worldR_row ::
  "nat \<Rightarrow> nat list \<Rightarrow> istream \<times> Calibration \<Rightarrow> istream \<times> Calibration" where
  "load_worldR_row i [] sc = sc"
| "load_worldR_row i (j # js) (s, c) =
     (case get_float s (worldR c ! i ! j) of
        (s', v) \<Rightarrow> load_worldR_row i js (s', c\<lparr>worldR := set_entry (worldR c) i j v\<rparr>))"

fun load_worldR :: "nat list \<Rightarrow> istream \<times> Calibration \<Rightarrow> istream \<times> Calibration" where
  "load_worldR [] sc = sc"
| "load_worldR (i # is) sc = load_worldR is (load_worldR_row i [0..<3] sc)"

text \<open>\<open>LoadCalibration\<close>: \<open>None\<close> is a file that cannot be opened.\<close>

definition LoadCalibration :: "string option \<Rightarrow> Calibration \<Rightarrow> bool \<times> Calibration" where
  "LoadCalibration file c =
     (case file of
        None \<Rightarrow> (False, c)
      | Some text \<Rightarrow>
          (case load_worldR [0..<3]
                  (load_worldT [0..<3] (\<lparr>rest = text, failbit = False\<rparr>, c)) of
             (s1, c1) \<Rightarrow>
               (case get_number s1 (usedMarkerId c1) of
                  (s2, markerId) \<Rightarrow>
                    (case get_bool s2 (isCalibrated c1) of
                       (s3, calibrated) \<Rightarrow>
                         (True, c1\<lparr>usedMarkerId := markerId, isCalibrated := calibrated\<rparr>)))))"

text \<open>A calibration as \<open>Calibrate\<close> leaves it when the marker faces the camera: the
  identity rotation, a translation, marker 0, calibrated.\<close>

definition saved_example :: Calibration where
  "saved_example =
     Calibration_new\<lparr>worldT := [1, 0, - 1], usedMarkerId := 0, isCalibrated := True\<rparr>"

section \<open>markerDetector.cpp: \<open>GetCode\<close>\<close>

definition CodeDetectionBitThreshold :: int where "CodeDetectionBitThreshold = 128"

text \<open>The cell's bit from its average intensity \<open>temp\<close>.\<close>

definition cell_bit :: "int \<Rightarrow> int" where
  "cell_bit temp = (if temp < CodeDetectionBitThreshold then 0 else 1)"

text \<open>The loop over the four data cells: \<open>None\<close> is the early \<open>return -1\<close>, otherwise
  the pair \<open>(code, ones)\<close>.\<close>

fun read_data_bits :: "int list \<Rightarrow> nat list \<Rightarrow> int \<times> int \<Rightarrow> (int \<times> int) option" where
  "read_data_bits vals [] acc = Some acc"
| "read_data_bits vals (i # is) (code, ones) =
     (if vals ! i = vals ! (i + 4) then None
      else if vals ! i = 1 then read_data_bits vals is (code + 2 ^ (3 - i), ones + 1)
      else read_data_bits vals is (code, ones))"

text \<open>
  \<open>GetCode\<close> from the nine cell averages of the warped patch (the homography, the warp
  and the integral image are OpenCV's): \<open>cells ! (j + i * 3)\<close> is the average of the cell
  in row \<open>i\<close>, column \<open>j\<close>.
\<close>

definition GetCode :: "int list \<Rightarrow> int" where
  "GetCode cells =
     (let vals = map cell_bit cells in
      case read_data_bits vals [0..<4] (0, 0) of
        None \<Rightarrow> - 1
      | Some (code, ones) \<Rightarrow>
          (let even = (ones mod 2 = 0) in
           if (even \<and> vals ! 8 = 0) \<or> (\<not> even \<and> vals ! 8 = 1) then - 1 else code))"

section \<open>PointCloudTransferSocket.cs and the receiver's decoder\<close>

text \<open>\<open>(short)\<close> of an integer: the low 16 bits, read as two's complement.\<close>

definition to_short :: "int \<Rightarrow> int" where
  "to_short i = sint (word_of_int i :: 16 word)"

definition MinScale :: int where "MinScale = 400"
definition ScaleFnOffset :: real where "ScaleFnOffset = 6700"
definition ScaleFnFactor :: real where "ScaleFnFactor = - 500"

text \<open>
  \<open>MaxScale = (short)(1 / MinPrecision)\<close>.  In exact arithmetic \<open>1 / MinPrecision\<close> is the
  integer 850, where truncation is not continuous, and the single precision constant
  \<open>MinPrecision = 0.3f / 255\<close> is not exactly \<open>0.3 / 255\<close>.  The value of the constant
  \<open>MinPrecision\<close> is therefore the parameter \<open>mp\<close> of the server's scale.
\<close>

definition MaxScale :: "real \<Rightarrow> int" where
  "MaxScale mp = to_short (trunc_int (1 / mp))"

definition DetermineScale :: "real \<Rightarrow> int \<Rightarrow> int" where
  "DetermineScale mp vertexCount =
     (if vertexCount \<le> 0 then MaxScale mp
      else let scale = to_short (trunc_int
                 (ScaleFnOffset + ScaleFnFactor * ln (real_of_int vertexCount)))
           in min (MaxScale mp) (max scale MinScale))"

text \<open>The specification's words: \<open>clamp(round(6700 - 500 ln N), 400, 255 / minPrecision)\<close>.\<close>

definition spec_scale :: "real \<Rightarrow> int \<Rightarrow> int" where
  "spec_scale mp N =
     min \<lfloor>255 / mp\<rfloor> (max 400 (round (6700 - 500 * ln (real_of_int N))))"

text \<open>The value of the single precision constant \<open>0.3f / 255\<close>, rounded to nearest:
  \<open>5052903 / 2\<^sup>3\<^sup>2\<close>, just above \<open>0.3 / 255\<close>.\<close>

definition MinPrecision_single :: real where
  "MinPrecision_single = 5052903 / 2 ^ 32"

definition EncodeFloatToByte :: "real \<Rightarrow> real \<Rightarrow> real \<Rightarrow> 8 word" where
  "EncodeFloatToByte val rangeCenter scale =
     (let result = (val + HalfRange - rangeCenter) * scale
      in word_of_int (trunc_int (min 255 (max result 0))))"

text \<open>ObjectControllerIO.cs: the receiver declares the same \<open>Range\<close> and \<open>HalfRange\<close>.\<close>

definition DecodeByteToFloat :: "8 word \<Rightarrow> real \<Rightarrow> real \<Rightarrow> real" where
  "DecodeByteToFloat encoded rangeCenter scale =
     real (unat encoded) / scale - HalfRange + rangeCenter"


section \<open>Utils.cs: hardware sync in \<open>CameraServer\<close>\<close>

datatype SyncState = Subordinate | Master | Standalone | Unknown

record CameraClient =
  SerialNumber :: string
  IsStarted :: bool
  CurrentSyncState :: SyncState

text \<open>The calls the server makes into the native client with index \<open>i\<close>, in the order it
  makes them.\<close>

datatype native_call = EnableSync_call nat SyncState int | StartMaster_call nat

record CameraServer =
  liveScanClients :: "CameraClient list"
  waitForSubordinateStart :: bool
  allDevicesInitialized :: bool
  native_calls :: "native_call list"

text \<open>\<open>CameraClient.EnableSync(syncState, syncOffset)\<close> on client \<open>i\<close>.\<close>

definition client_EnableSync :: "nat \<Rightarrow> SyncState \<Rightarrow> int \<Rightarrow> CameraServer \<Rightarrow> CameraServer" where
  "client_EnableSync i syncState syncOffset s =
     s\<lparr>liveScanClients :=
          (liveScanClients s)
            [i := (liveScanClients s ! i)\<lparr>IsStarted := False, CurrentSyncState := Unknown\<rparr>],
        native_calls := native_calls s @ [EnableSync_call i syncState syncOffset]\<rparr>"

text \<open>
  \<open>CameraServer.EnableSync\<close>.  \<open>sortedClients\<close> holds the indices of the clients with a
  serial number, ordered by \<open>StringComparer.Ordinal\<close> (the order of lists of characters);
  \<open>OrderBy\<close> and \<open>sort_key\<close> are both stable.
\<close>

definition EnableSync :: "CameraServer \<Rightarrow> CameraServer" where
  "EnableSync s0 =
     (let s = s0\<lparr>allDevicesInitialized := False, waitForSubordinateStart := True\<rparr>;
          serial = (\<lambda>i. SerialNumber (liveScanClients s ! i));
          everyone = [0..<length (liveScanClients s)];
          sortedClients = sort_key serial (filter (\<lambda>i. serial i \<noteq> []) everyone)
      in if sortedClients = [] then s
         else
           (let s1 = client_EnableSync (sortedClients ! 0) Master 0 s;
                s2 = fold (\<lambda>i st. client_EnableSync (sortedClients ! i) Subordinate (int i) st)
                       [1..<length sortedClients] s1;
                standaloneClients = filter (\<lambda>i. i \<notin> set sortedClients) everyone
            in fold (\<lambda>i st. client_EnableSync i Standalone 0 st) standaloneClients s2))"

text \<open>The server's private \<open>StartMaster\<close>, called when a subordinate confirms.\<close>

definition StartMaster :: "CameraServer \<Rightarrow> CameraServer" where
  "StartMaster s =
     (if \<not> waitForSubordinateStart s then s
      else
        (let allSubsStarted =
               list_all (\<lambda>client. \<not> (\<not> IsStarted client \<and> CurrentSyncState client = Subordinate))
                 (liveScanClients s);
             s1 = s\<lparr>waitForSubordinateStart := False\<rparr>
         in if allSubsStarted then
              (case find (\<lambda>i. CurrentSyncState (liveScanClients s1 ! i) = Master)
                      [0..<length (liveScanClients s1)] of
                 None \<Rightarrow> s1
               | Some i \<Rightarrow> s1\<lparr>native_calls := native_calls s1 @ [StartMaster_call i]\<rparr>)
            else s1))"

definition ConfirmSyncDisabled :: "CameraServer \<Rightarrow> CameraServer" where
  "ConfirmSyncDisabled s =
     (if waitForSubordinateStart s then s
      else if list_ex (\<lambda>client. CurrentSyncState client \<noteq> Standalone) (liveScanClients s) then s
      else s\<lparr>allDevicesInitialized := True\<rparr>)"

definition set_client :: "nat \<Rightarrow> (CameraClient \<Rightarrow> CameraClient) \<Rightarrow> CameraServer \<Rightarrow> CameraServer" where
  "set_client i f s = s\<lparr>liveScanClients := (liveScanClients s)[i := f (liveScanClients s ! i)]\<rparr>"

text \<open>\<open>OnConfirmSyncState(clientIndex, state)\<close>: a client acknowledges its new role.\<close>

definition OnConfirmSyncState :: "nat \<Rightarrow> SyncState \<Rightarrow> CameraServer \<Rightarrow> CameraServer" where
  "OnConfirmSyncState clientIndex state s0 =
     (let s = set_client clientIndex (\<lambda>client. client\<lparr>CurrentSyncState := state\<rparr>) s0
      in case state of
           Subordinate \<Rightarrow>
             StartMaster (set_client clientIndex (\<lambda>client. client\<lparr>IsStarted := True\<rparr>) s)
         | Master \<Rightarrow> set_client clientIndex (\<lambda>client. client\<lparr>IsStarted := False\<rparr>) s
         | Standalone \<Rightarrow>
             ConfirmSyncDisabled
               (set_client clientIndex (\<lambda>client. client\<lparr>IsStarted := True\<rparr>) s)
         | Unknown \<Rightarrow> s)"

text \<open>\<open>OnConfirmMasterRestart\<close>, after the client's own callback has set \<open>IsStarted\<close>.\<close>

definition OnConfirmMasterRestart :: "nat \<Rightarrow> CameraServer \<Rightarrow> CameraServer" where
  "OnConfirmMasterRestart clientIndex s =
     (set_client clientIndex (\<lambda>client. client\<lparr>IsStarted := True\<rparr>) s)
       \<lparr>allDevicesInitialized := True\<rparr>"

text \<open>Three cameras that have reported their serial numbers, in the order of their
  client indices, before sync is enabled.\<close>

definition three_cameras :: CameraServer where
  "three_cameras =
     \<lparr>liveScanClients =
        [\<lparr>SerialNumber = ''A001'', IsStarted = True, CurrentSyncState = Standalone\<rparr>,
         \<lparr>SerialNumber = ''A000'', IsStarted = True, CurrentSyncState = Standalone\<rparr>,
         \<lparr>SerialNumber = ''A002'', IsStarted = True, CurrentSyncState = Standalone\<rparr>],
      waitForSubordinateStart = False,
      allDevicesInitialized = True,
      native_calls = []\<rparr>"

section \<open>Frames used to run \<open>ProcessFrame\<close>\<close>

text \<open>Twelve copies of one point, which fill one bucket of the density filter.\<close>

definition twelve_points :: "Point3f list" where
  "twelve_points = replicate 12 (Point3f_xyz 0 0 (15 / 100))"

definition twelve_colors :: "RGB list" where
  "twelve_colors = replicate 12 RGB_default"

text \<open>Twelve points 1.2 mm apart in \<open>x\<close> and \<open>y\<close>: one bucket of the density filter,
  twelve cells of the voxel grid.\<close>

definition grid_points :: "Point3f list" where
  "grid_points =
     concat (map (\<lambda>i. map (\<lambda>j. Point3f_xyz (real i * 12 / 10000) (real j * 12 / 10000) (15 / 100))
                          [0..<3]) [0..<4])"

definition calibrated_client :: LiveScanClient where
  "calibrated_client =
     LiveScanClient_new\<lparr>calibration := Calibration_new\<lparr>isCalibrated := True\<rparr>\<rparr>"

text \<open>The KNN filter that removes nothing.\<close>

definition keep_all :: "Point3f list \<Rightarrow> RGB list \<Rightarrow> int \<Rightarrow> real \<Rightarrow> Point3f list \<times> RGB list" where
  "keep_all vertices colors k maxDist = (vertices, colors)"

text \<open>The marker code reader in the specification's words: cells 4 to 7 are the
  complement of cells 0 to 3, and cell 8 is the parity of the four data bits, 0 for an
  even number of ones.\<close>

definition spec_marker_accepts :: "int list \<Rightarrow> bool" where
  "spec_marker_accepts vals \<longleftrightarrow>
     list_all (\<lambda>i. vals ! (i + 4) = 1 - vals ! i) [0..<4]
     \<and> vals ! 8 = (vals ! 0 + vals ! 1 + vals ! 2 + vals ! 3) mod 2"

text \<open>The index of the bit of the cell a point falls into.\<close>

definition cell_index :: "VoxelGridFilter \<Rightarrow> Point3f \<Rightarrow> nat" where
  "cell_index g p = (case grid_cell g p of (ix, iy, iz) \<Rightarrow> VoxelIndex g ix iy iz)"





section \<open>Small facts about numerals and lists\<close>

lemma upt3: "[0..<3] = [0, 1, 2]"
  by (simp add: eval_nat_numeral)

lemma upt4: "[0..<4] = [0, 1, 2, 3]"
  by (simp add: eval_nat_numeral)


lemma replicate_12: "replicate 12 x = [x, x, x, x, x, x, x, x, x, x, x, x]"
  by (simp add: eval_nat_numeral)

lemma trunc_int_nonneg: "0 \<le> v \<Longrightarrow> trunc_int v = \<lfloor>v\<rfloor>"
  by (simp add: trunc_int_def)

section \<open>Voxel grid: the constructed grid and the bounds check\<close>

lemma client_grid_constructed:
  "VoxelGridFilter_new MinPrecision XRangeCenter YRangeCenter ZRangeCenter HalfRange
     = Inr client_grid"
  by (simp add: VoxelGridFilter_new_def MinPrecision_def XRangeCenter_def YRangeCenter_def
      ZRangeCenter_def HalfRange_def Range_def client_grid_def Let_def)

lemma Insert_params:
  "Insert g x y z = (r, g') \<Longrightarrow>
     gridSizeX g' = gridSizeX g \<and> gridSizeY g' = gridSizeY g \<and> gridSizeZ g' = gridSizeZ g
     \<and> invVoxelSize g' = invVoxelSize g \<and> minX g' = minX g \<and> minY g' = minY g
     \<and> minZ g' = minZ g"
  by (auto simp: Insert_def Let_def split: prod.splits if_splits)

lemma Insert_mono: "Insert g x y z = (r, g') \<Longrightarrow> voxelGrid g i \<Longrightarrow> voxelGrid g' i"
  by (auto simp: Insert_def Let_def split: prod.splits if_splits)

text \<open>The part of the voxel set's contract that does hold: a second \<open>Insert\<close> of a point
  that was accepted is refused.\<close>

lemma Insert_twice:
  "Insert g x y z = (True, g') \<Longrightarrow> fst (Insert g' x y z) = False"
  by (auto simp: Insert_def Let_def voxel_of_def VoxelIndex_def split: prod.splits if_splits)

text \<open>
  Claim C2 (the part that fails).  A point outside the grid bounds must be refused by
  \<open>Insert\<close>.  The grid of the capture client covers \<open>x \<ge> minX = -0.15\<close>.  The point
  \<open>(-0.1505, 0, 0.15)\<close> lies below \<open>minX\<close>, yet \<open>Insert\<close> on the freshly reset grid accepts
  it: the index \<open>(x - minX) * invVoxelSize = -0.425\<close> is truncated towards zero to the
  index 0 of the first cell, so the test \<open>ix < 0\<close> does not fire.
\<close>

theorem Insert_accepts_point_below_minX:
  "- (1505 / 10000) < minX client_grid
   \<and> voxel_of client_grid (- (1505 / 10000)) 0 (15 / 100) = (0, 127, 127)
   \<and> fst (Insert (Reset client_grid) (- (1505 / 10000)) 0 (15 / 100)) = True"
  by (simp add: Insert_def voxel_of_def Reset_def client_grid_def trunc_int_def VoxelIndex_def)

section \<open>\<open>ProcessFrame\<close>: the stages of the pipeline\<close>

lemma calibrate_and_clip_uncalibrated:
  "\<not> isCalibrated c \<Longrightarrow> calibrate_and_clip c b vs g = (vs, length vs, g)"
  by (induction vs) simp_all

lemma count_voxels_length:
  "count_voxels vs m = (ks, m') \<Longrightarrow> length ks = length vs"
proof (induction vs arbitrary: m ks m')
  case Nil
  then show ?case by simp
next
  case (Cons a vs)
  show ?case
  proof (cases "Invalid a")
    case True
    obtain k2 m2 where r: "count_voxels vs m = (k2, m2)" by (cases "count_voxels vs m") auto
    with Cons.prems True have "ks = 0 # k2" by simp
    with Cons.IH[OF r] show ?thesis by simp
  next
    case False
    obtain k2 m2 where r: "count_voxels vs (m(voxel_key a := m (voxel_key a) + 1)) = (k2, m2)"
      by (cases "count_voxels vs (m(voxel_key a := m (voxel_key a) + 1))") auto
    with Cons.prems False have "ks = voxel_key a # k2" by (simp add: Let_def)
    with Cons.IH[OF r] show ?thesis by simp
  qed
qed

lemma copy_valid_take:
  "n + length (filter (\<lambda>v. \<not> Invalid v) vs) \<le> length gv \<Longrightarrow>
   copy_valid vs colors i (gv, gc, n) = (gv', gc', n') \<Longrightarrow>
   n' = n + length (filter (\<lambda>v. \<not> Invalid v) vs) \<and> length gv' = length gv \<and>
   take n' gv' = take n gv @ filter (\<lambda>v. \<not> Invalid v) vs"
proof (induction vs arbitrary: gv gc n i)
  case Nil
  then show ?case by simp
next
  case (Cons v vs)
  show ?case
  proof (cases "Invalid v")
    case True
    with Cons.prems have p: "n + length (filter (\<lambda>v. \<not> Invalid v) vs) \<le> length gv"
      and st: "copy_valid vs colors (Suc i) (gv, gc, n) = (gv', gc', n')" by simp_all
    from Cons.IH[OF p st] True show ?thesis by auto
  next
    case False
    from Cons.prems False have len: "n < length gv" by simp
    from Cons.prems False
    have step: "copy_valid vs colors (Suc i) (gv[n := v], gc[n := colors ! i], Suc n) = (gv', gc', n')"
      by simp
    from Cons.prems False have "Suc n + length (filter (\<lambda>v. \<not> Invalid v) vs) \<le> length (gv[n := v])"
      by simp
    from Cons.IH[OF this step]
    have "n' = Suc n + length (filter (\<lambda>v. \<not> Invalid v) vs)" "length gv' = length gv"
      "take n' gv' = take (Suc n) (gv[n := v]) @ filter (\<lambda>v. \<not> Invalid v) vs"
      by auto
    moreover have "take (Suc n) (gv[n := v]) = take n gv @ [v]"
      using len by (simp add: take_Suc_conv_app_nth)
    ultimately show ?thesis using False by simp
  qed
qed

lemma Insert_True:
  "Insert g (X p) (Y p) (Z p) = (True, g') \<Longrightarrow>
     \<not> voxelGrid g (cell_index g p) \<and> voxelGrid g' (cell_index g p)"
  by (auto simp: Insert_def Let_def cell_index_def grid_cell_def split: prod.splits if_splits)

lemma grid_cell_cong:
  "invVoxelSize g' = invVoxelSize g \<Longrightarrow> minX g' = minX g \<Longrightarrow> minY g' = minY g \<Longrightarrow>
   minZ g' = minZ g \<Longrightarrow> grid_cell g' p = grid_cell g p"
  by (simp add: grid_cell_def voxel_of_def)

lemma cell_index_cong:
  "invVoxelSize g' = invVoxelSize g \<Longrightarrow> minX g' = minX g \<Longrightarrow> minY g' = minY g \<Longrightarrow>
   minZ g' = minZ g \<Longrightarrow> gridSizeX g' = gridSizeX g \<Longrightarrow> gridSizeY g' = gridSizeY g \<Longrightarrow>
   cell_index g' p = cell_index g p"
  by (simp add: cell_index_def grid_cell_def voxel_of_def VoxelIndex_def)

lemma invalidPoint_Invalid: "Invalid invalidPoint"
  by (simp add: invalidPoint_def Point3f_xyzi_def)


lemma cc_outside:
  "isCalibrated c \<Longrightarrow> outside_bounds b (apply_world_transform c v) \<Longrightarrow>
   calibrate_and_clip c b vs g = (a, m, h) \<Longrightarrow>
   calibrate_and_clip c b (v # vs) g = (invalidPoint # a, m, h)"
  by (simp add: Let_def)

lemma cc_rejected:
  "isCalibrated c \<Longrightarrow> \<not> outside_bounds b (apply_world_transform c v) \<Longrightarrow>
   Insert g (X (apply_world_transform c v)) (Y (apply_world_transform c v))
     (Z (apply_world_transform c v)) = (False, g1) \<Longrightarrow>
   calibrate_and_clip c b vs g1 = (a, m, h) \<Longrightarrow>
   calibrate_and_clip c b (v # vs) g = (invalidPoint # a, m, h)"
  by (simp add: Let_def)

lemma cc_kept:
  "isCalibrated c \<Longrightarrow> \<not> outside_bounds b (apply_world_transform c v) \<Longrightarrow>
   Insert g (X (apply_world_transform c v)) (Y (apply_world_transform c v))
     (Z (apply_world_transform c v)) = (True, g1) \<Longrightarrow>
   calibrate_and_clip c b vs g1 = (a, m, h) \<Longrightarrow>
   calibrate_and_clip c b (v # vs) g = (apply_world_transform c v # a, Suc m, h)"
  by (simp add: Let_def)


lemma calibrate_and_clip_distinct:
  "isCalibrated c \<Longrightarrow> calibrate_and_clip c b vs g = (allVertices, n, g') \<Longrightarrow>
     (\<forall>p \<in> set (filter (\<lambda>v. \<not> Invalid v) allVertices). \<not> voxelGrid g (cell_index g p))
     \<and> distinct (map (grid_cell g) (filter (\<lambda>v. \<not> Invalid v) allVertices))
     \<and> n = length (filter (\<lambda>v. \<not> Invalid v) allVertices)"
proof (induction vs arbitrary: g allVertices n g')
  case Nil
  then show ?case by simp
next
  case (Cons v vs)
  let ?temp = "apply_world_transform c v"
  note cal = Cons.prems(1)
  show ?case
  proof (cases "outside_bounds b ?temp")
    case True
    obtain a m h where r: "calibrate_and_clip c b vs g = (a, m, h)"
      by (cases "calibrate_and_clip c b vs g") auto
    have "(allVertices, n, g') = (invalidPoint # a, m, h)"
      using cc_outside[OF cal True r] Cons.prems(2) by (simp only:)
    then have av: "allVertices = invalidPoint # a" "n = m" by simp_all
    from Cons.IH[OF cal r] show ?thesis unfolding av by (simp add: invalidPoint_Invalid)
  next
    case False
    obtain ins g1 where i: "Insert g (X ?temp) (Y ?temp) (Z ?temp) = (ins, g1)"
      by (cases "Insert g (X ?temp) (Y ?temp) (Z ?temp)") auto
    obtain a m h where r: "calibrate_and_clip c b vs g1 = (a, m, h)"
      by (cases "calibrate_and_clip c b vs g1") auto
    note P = Insert_params[OF i]
    have cell: "grid_cell g1 p = grid_cell g p" for p by (rule grid_cell_cong) (simp_all add: P)
    have cidx: "cell_index g1 p = cell_index g p" for p by (rule cell_index_cong) (simp_all add: P)
    note IH = Cons.IH[OF cal r]
    have free: "\<forall>p \<in> set (filter (\<lambda>v. \<not> Invalid v) a). \<not> voxelGrid g (cell_index g p)"
    proof
      fix p assume p: "p \<in> set (filter (\<lambda>v. \<not> Invalid v) a)"
      with IH have "\<not> voxelGrid g1 (cell_index g1 p)" by blast
      then show "\<not> voxelGrid g (cell_index g p)" using Insert_mono[OF i] cidx by auto
    qed
    have "map (grid_cell g1) (filter (\<lambda>v. \<not> Invalid v) a)
            = map (grid_cell g) (filter (\<lambda>v. \<not> Invalid v) a)"
      by (rule map_cong) (simp_all add: cell)
    with IH have dist: "distinct (map (grid_cell g) (filter (\<lambda>v. \<not> Invalid v) a))"
      by simp
    from IH have cnt: "m = length (filter (\<lambda>v. \<not> Invalid v) a)" by simp
    show ?thesis
    proof (cases ins)
      case False
      with i have i': "Insert g (X ?temp) (Y ?temp) (Z ?temp) = (False, g1)" by simp
      have "(allVertices, n, g') = (invalidPoint # a, m, h)"
        using cc_rejected[OF cal \<open>\<not> outside_bounds b ?temp\<close> i' r] Cons.prems(2) by (simp only:)
      then have av: "allVertices = invalidPoint # a" "n = m" by simp_all
      from free dist cnt show ?thesis unfolding av by (simp add: invalidPoint_Invalid)
    next
      case True
      with i have i': "Insert g (X ?temp) (Y ?temp) (Z ?temp) = (True, g1)" by simp
      have "(allVertices, n, g') = (?temp # a, Suc m, h)"
        using cc_kept[OF cal \<open>\<not> outside_bounds b ?temp\<close> i' r] Cons.prems(2) by (simp only:)
      then have av: "allVertices = ?temp # a" "n = Suc m" by simp_all
      have tv: "\<not> Invalid ?temp" by (simp add: apply_world_transform_def RotatePoint_def)
      from Insert_True[OF i']
      have T: "\<not> voxelGrid g (cell_index g ?temp)" "voxelGrid g1 (cell_index g ?temp)"
        by auto
      have new: "grid_cell g ?temp \<notin> grid_cell g ` set (filter (\<lambda>v. \<not> Invalid v) a)"
      proof
        assume "grid_cell g ?temp \<in> grid_cell g ` set (filter (\<lambda>v. \<not> Invalid v) a)"
        then obtain p where p: "p \<in> set (filter (\<lambda>v. \<not> Invalid v) a)"
          "grid_cell g p = grid_cell g ?temp" by auto
        then have "cell_index g p = cell_index g ?temp" by (simp add: cell_index_def)
        moreover from IH p have "\<not> voxelGrid g1 (cell_index g1 p)" by blast
        ultimately show False using T cidx by simp
      qed
      have f: "filter (\<lambda>v. \<not> Invalid v) (?temp # a) = ?temp # filter (\<lambda>v. \<not> Invalid v) a"
        using tv by simp
      show ?thesis unfolding av f using free dist cnt T(1) new by simp
    qed
  qed
qed


lemma mark_isolated_Nil [simp]: "mark_isolated [] ks m = []"
  by (simp add: mark_isolated_def)

lemma mark_isolated_Cons:
  "mark_isolated (v # vs) (k # ks) m =
     (if \<not> Invalid v \<and> m k < minPointsPerVoxel then invalidPoint else v) # mark_isolated vs ks m"
  by (simp add: mark_isolated_def)

lemma mark_isolated_Nil2 [simp]: "mark_isolated vs [] m = []"
  by (simp add: mark_isolated_def)

lemma mark_isolated_valid_subset:
  "set (filter (\<lambda>v. \<not> Invalid v) (mark_isolated vs ks m)) \<subseteq> set (filter (\<lambda>v. \<not> Invalid v) vs)"
proof (induction vs arbitrary: ks)
  case Nil
  then show ?case by simp
next
  case (Cons v vs)
  show ?case
  proof (cases ks)
    case Nil
    then show ?thesis by simp
  next
    case (Cons k ks')
    with Cons.IH[of ks'] show ?thesis
      by (auto simp: mark_isolated_Cons invalidPoint_Invalid)
  qed
qed

lemma mark_isolated_distinct:
  "distinct (map f (filter (\<lambda>v. \<not> Invalid v) vs)) \<Longrightarrow>
   distinct (map f (filter (\<lambda>v. \<not> Invalid v) (mark_isolated vs ks m)))
   \<and> length (filter (\<lambda>v. \<not> Invalid v) (mark_isolated vs ks m))
       \<le> length (filter (\<lambda>v. \<not> Invalid v) vs)"
proof (induction vs arbitrary: ks)
  case Nil
  then show ?case by simp
next
  case (Cons v vs)
  show ?case
  proof (cases ks)
    case Nil
    then show ?thesis by simp
  next
    case (Cons k ks')
    from Cons.prems have d: "distinct (map f (filter (\<lambda>v. \<not> Invalid v) vs))"
      by (simp split: if_splits)
    note IH = Cons.IH[OF d, of ks']
    note sub = mark_isolated_valid_subset[of vs ks' m]
    show ?thesis
    proof (cases "\<not> Invalid v \<and> \<not> m k < minPointsPerVoxel")
      case True
      with Cons.prems have "f v \<notin> f ` set (filter (\<lambda>v. \<not> Invalid v) vs)" by simp
      with sub have "f v \<notin> f ` set (filter (\<lambda>v. \<not> Invalid v) (mark_isolated vs ks' m))" by blast
      with True IH Cons show ?thesis by (simp add: mark_isolated_Cons)
    next
      case False
      with IH Cons show ?thesis by (auto simp: mark_isolated_Cons invalidPoint_Invalid)
    qed
  qed
qed

lemma ProcessFrame_points_distinct:
  assumes cal: "isCalibrated (calibration cl)"
    and run: "ProcessFrame_points cl vertices colors = (goodVertices, goodColorPoints, n, g)"
  shows "distinct (map (grid_cell (voxelGridFilter cl)) (take n goodVertices))"
proof -
  let ?g0 = "Reset (voxelGridFilter cl)"
  obtain av cnt g1 where s1:
    "calibrate_and_clip (calibration cl) (bounds cl) vertices ?g0 = (av, cnt, g1)"
    by (cases "calibrate_and_clip (calibration cl) (bounds cl) vertices ?g0") auto
  obtain ks counts where s2: "count_voxels av (\<lambda>_. 0) = (ks, counts)"
    by (cases "count_voxels av (\<lambda>_. 0)") auto
  let ?marked = "mark_isolated av ks counts"
  from run s1 s2 have s3:
    "copy_valid ?marked colors 0
       (replicate cnt Point3f_default, replicate cnt RGB_default, 0)
     = (goodVertices, goodColorPoints, n)"
    by (simp add: ProcessFrame_points_def split: prod.splits)
  from calibrate_and_clip_distinct[OF cal s1]
  have d0: "distinct (map (grid_cell ?g0) (filter (\<lambda>v. \<not> Invalid v) av))"
    and c0: "cnt = length (filter (\<lambda>v. \<not> Invalid v) av)" by simp_all
  have "map (grid_cell ?g0) (filter (\<lambda>v. \<not> Invalid v) av)
        = map (grid_cell (voxelGridFilter cl)) (filter (\<lambda>v. \<not> Invalid v) av)"
    by (rule map_cong) (simp_all add: grid_cell_def voxel_of_def Reset_def)
  with d0 have d1: "distinct (map (grid_cell (voxelGridFilter cl)) (filter (\<lambda>v. \<not> Invalid v) av))"
    by simp
  from mark_isolated_distinct[OF d1, of ks counts]
  have d2: "distinct (map (grid_cell (voxelGridFilter cl)) (filter (\<lambda>v. \<not> Invalid v) ?marked))"
    and l2: "length (filter (\<lambda>v. \<not> Invalid v) ?marked) \<le> cnt" using c0 by simp_all
  from l2 have "0 + length (filter (\<lambda>v. \<not> Invalid v) ?marked)
                  \<le> length (replicate cnt Point3f_default)" by simp
  from copy_valid_take[OF this s3]
  have "take n goodVertices = filter (\<lambda>v. \<not> Invalid v) ?marked" by auto
  with d2 show ?thesis by simp
qed


lemma twelve_points_pass:
  "fst (ProcessFrame_points LiveScanClient_new twelve_points twelve_colors) = twelve_points"
  by (simp add: ProcessFrame_points_def LiveScanClient_new_def Calibration_new_def
      twelve_points_def Point3f_xyz_def Reset_def client_grid_def Let_def voxel_key_def
      voxelSize_def HashVoxel_def mark_isolated_def minPointsPerVoxel_def twelve_colors_def
      replicate_12 Point3f_default_def RGB_default_def invalidPoint_def Point3f_xyzi_def)

lemma twelve_points_published:
  "lastFrameVertices (ProcessFrame keep_all LiveScanClient_new twelve_points twelve_colors)
     = replicate 12 \<lparr>Xs = 0, Ys = 0, Zs = 150\<rparr>"
  by (simp add: ProcessFrame_def ProcessFrame_points_def LiveScanClient_new_def
      Calibration_new_def twelve_points_def Point3f_xyz_def Reset_def client_grid_def Let_def
      voxel_key_def voxelSize_def HashVoxel_def mark_isolated_def minPointsPerVoxel_def
      twelve_colors_def replicate_12 Point3f_default_def RGB_default_def invalidPoint_def
      Point3f_xyzi_def Point3s_of_Point3f_def trunc_int_def)

lemma grid_points_count:
  "fst (snd (snd (ProcessFrame_points calibrated_client grid_points twelve_colors))) = 12"
  by (simp add: ProcessFrame_points_def calibrated_client_def LiveScanClient_new_def
      Calibration_new_def grid_points_def upt3 upt4 apply_world_transform_def RotatePoint_def
      Point3f_xyz_def outside_bounds_def Reset_def client_grid_def Insert_def voxel_of_def
      trunc_int_def VoxelIndex_def Let_def voxel_key_def voxelSize_def HashVoxel_def
      mark_isolated_def minPointsPerVoxel_def twelve_colors_def replicate_12
      Point3f_default_def RGB_default_def invalidPoint_def Point3f_xyzi_def)

section \<open>Claim C1: voxel de-duplication of the published cloud\<close>

text \<open>
  Claim C1 as stated fails.  A camera that is not calibrated publishes every point of
  the frame that survives the density filter, whatever its voxel: the frame of twelve
  equal points at \<open>(0, 0, 0.15)\<close> comes out as twelve equal points, in the float
  cloud and in the published millimetre cloud.
\<close>

theorem ProcessFrame_uncalibrated_keeps_duplicates:
  "\<not> isCalibrated (calibration LiveScanClient_new)
   \<and> \<not> distinct (map spec_voxel
          (fst (ProcessFrame_points LiveScanClient_new twelve_points twelve_colors)))
   \<and> \<not> distinct (lastFrameVertices
          (ProcessFrame keep_all LiveScanClient_new twelve_points twelve_colors))"
proof -
  have "\<not> isCalibrated (calibration LiveScanClient_new)"
    by (simp add: LiveScanClient_new_def Calibration_new_def)
  moreover have "\<not> distinct (map spec_voxel twelve_points)"
    by (simp add: twelve_points_def replicate_12)
  moreover have "\<not> distinct (replicate 12 \<lparr>Xs = 0, Ys = 0, Zs = 150 :: 16 word\<rparr>)"
    by (simp add: replicate_12)
  ultimately show ?thesis
    by (simp only: twelve_points_pass twelve_points_published simp_thms)
qed

text \<open>
  Claim C1, amended.  When the camera is calibrated, the points of the frame that
  survive the world transform, the clip box, the voxel set and the density filter (the
  first \<open>n\<close> entries of \<open>goodVertices\<close>, \<open>n\<close> being \<open>goodVerticesShortCounter\<close>) lie
  in pairwise different cells of the client's voxel grid.  The cell of a point is the
  one \<open>Insert\<close> computes: the truncated \<open>(p - min) * invVoxelSize\<close> per axis, counted from
  the grid's minimum corner.
\<close>

theorem ProcessFrame_calibrated_cells_distinct:
  "isCalibrated (calibration cl) \<Longrightarrow>
     (case ProcessFrame_points cl vertices colors of
        (goodVertices, goodColorPoints, n, g) \<Rightarrow>
          distinct (map (grid_cell (voxelGridFilter cl)) (take n goodVertices)))"
  by (auto dest: ProcessFrame_points_distinct split: prod.splits)

theorem ProcessFrame_calibrated_cells_distinct_witness:
  "isCalibrated (calibration calibrated_client)
   \<and> fst (snd (snd (ProcessFrame_points calibrated_client grid_points twelve_colors))) = 12
   \<and> distinct (map (grid_cell (voxelGridFilter calibrated_client))
        (take 12 (fst (ProcessFrame_points calibrated_client grid_points twelve_colors))))"
proof -
  have cal: "isCalibrated (calibration calibrated_client)"
    by (simp add: calibrated_client_def)
  from ProcessFrame_calibrated_cells_distinct[OF cal, of grid_points twelve_colors]
  show ?thesis using cal grid_points_count by (auto split: prod.splits)
qed

section \<open>Claim C10: an uncalibrated camera passes every point on\<close>

text \<open>
  Claim C10.  If \<open>isCalibrated\<close> is false, the first loop of \<open>ProcessFrame\<close> leaves every
  captured point as it is, counts all of them as good and marks no voxel: what reaches
  the density filter is the captured frame, in camera space.
\<close>

theorem ProcessFrame_uncalibrated_passes_all:
  "\<not> isCalibrated (calibration cl) \<Longrightarrow>
     calibrate_and_clip (calibration cl) (bounds cl) vertices (Reset (voxelGridFilter cl))
       = (vertices, length vertices, Reset (voxelGridFilter cl))
     \<and> ProcessFrame_points cl vertices colors
       = (case count_voxels vertices (\<lambda>_. 0) of
            (vertexVoxelKeys, voxelCounts) \<Rightarrow>
              (case copy_valid (mark_isolated vertices vertexVoxelKeys voxelCounts) colors 0
                      (replicate (length vertices) Point3f_default,
                       replicate (length vertices) RGB_default, 0) of
                 (goodVertices, goodColorPoints, n) \<Rightarrow>
                   (goodVertices, goodColorPoints, n, Reset (voxelGridFilter cl))))"
  by (simp add: ProcessFrame_points_def calibrate_and_clip_uncalibrated)

theorem ProcessFrame_uncalibrated_passes_all_witness:
  "\<not> isCalibrated (calibration LiveScanClient_new)
   \<and> calibrate_and_clip (calibration LiveScanClient_new) (bounds LiveScanClient_new)
        twelve_points (Reset (voxelGridFilter LiveScanClient_new))
       = (twelve_points, 12, Reset (voxelGridFilter LiveScanClient_new))"
proof -
  have u: "\<not> isCalibrated (calibration LiveScanClient_new)"
    by (simp add: LiveScanClient_new_def Calibration_new_def)
  from ProcessFrame_uncalibrated_passes_all[OF u, of twelve_points twelve_colors]
  show ?thesis using u by (simp add: twelve_points_def)
qed

section \<open>Calibration: composing the marker pose with the Procrustes result\<close>

lemma set_entry_length [simp]: "length (set_entry W i j v) = length W"
  by (simp add: set_entry_def)

lemma set_entry_row_length [simp]: "length (set_entry W i j v ! r) = length (W ! r)"
  by (cases "i < length W"; cases "r = i") (simp_all add: set_entry_def list_update_beyond not_less)






lemma find_marker_pose_Some:
  "find_marker_pose ps markerId = Some p \<Longrightarrow> MarkerId p = markerId \<and> p \<in> set ps"
  by (induction ps) (auto split: if_splits)




section \<open>The first loop of \<open>ProcessFrame\<close>, entry by entry\<close>







section \<open>The outcomes of \<open>Calibrate\<close>, path by path\<close>



lemma Calibrate_null:
  "colorFrame = None \<or> depthFrame = None \<Longrightarrow>
   Calibrate detect svd colorFrame depthFrame frameWidth frameHeight c = (False, c)"
  by (auto simp: Calibrate_def split: option.splits)

lemma Calibrate_no_marker:
  "detect color frameHeight frameWidth = None \<Longrightarrow>
   Calibrate detect svd (Some color) (Some depth) frameWidth frameHeight c = (False, c)"
  by (simp add: Calibrate_def)

lemma Calibrate_unknown_marker:
  "detect color frameHeight frameWidth = Some marker \<Longrightarrow>
   find_marker_pose (markerPoses c) (marker_Id marker) = None \<Longrightarrow>
   Calibrate detect svd (Some color) (Some depth) frameWidth frameHeight c = (False, c)"
  by (simp add: Calibrate_def)

lemma Calibrate_no_depth:
  "detect color frameHeight frameWidth = Some marker \<Longrightarrow>
   find_marker_pose (markerPoses c) (marker_Id marker) = Some markerPose \<Longrightarrow>
   Get3DMarkerCorners depth frameWidth (Corners marker) = None \<Longrightarrow>
   Calibrate detect svd (Some color) (Some depth) frameWidth frameHeight c
     = (False, c\<lparr>usedMarkerId := marker_Id marker\<rparr>)"
  by (simp add: Calibrate_def Let_def find_marker_pose_Some)

lemma Calibrate_sampled:
  "detect color frameHeight frameWidth = Some marker \<Longrightarrow>
   find_marker_pose (markerPoses c) (marker_Id marker) = Some markerPose \<Longrightarrow>
   Get3DMarkerCorners depth frameWidth (Corners marker) = Some marker3D \<Longrightarrow>
   numSamples c + 1 < NumRequiredSamples \<Longrightarrow>
   Calibrate detect svd (Some color) (Some depth) frameWidth frameHeight c
     = (False, c\<lparr>usedMarkerId := marker_Id marker,
                  markerSamplePositions := markerSamplePositions c @ [marker3D],
                  numSamples := numSamples c + 1\<rparr>)"
  by (simp add: Calibrate_def Let_def find_marker_pose_Some)



lemma Calibrate_True_iff:
  "fst (Calibrate detect svd colorFrame depthFrame frameWidth frameHeight c) \<longleftrightarrow>
     (\<exists>color depth marker markerPose marker3D.
        colorFrame = Some color \<and> depthFrame = Some depth \<and>
        detect color frameHeight frameWidth = Some marker \<and>
        find_marker_pose (markerPoses c) (marker_Id marker) = Some markerPose \<and>
        Get3DMarkerCorners depth frameWidth (Corners marker) = Some marker3D \<and>
        NumRequiredSamples \<le> numSamples c + 1)"
  by (auto simp: Calibrate_def Let_def split: option.splits if_splits)



lemma Calibrate_False_cases:
  assumes "\<not> fst (Calibrate detect svd colorFrame depthFrame frameWidth frameHeight c)"
  shows "snd (Calibrate detect svd colorFrame depthFrame frameWidth frameHeight c) = c
    \<or> (\<exists>color depth marker markerPose.
          colorFrame = Some color \<and> depthFrame = Some depth \<and>
          detect color frameHeight frameWidth = Some marker \<and>
          find_marker_pose (markerPoses c) (marker_Id marker) = Some markerPose \<and>
          (snd (Calibrate detect svd colorFrame depthFrame frameWidth frameHeight c)
             = c\<lparr>usedMarkerId := marker_Id marker\<rparr>
           \<or> (\<exists>marker3D.
                 snd (Calibrate detect svd colorFrame depthFrame frameWidth frameHeight c)
                   = c\<lparr>usedMarkerId := marker_Id marker,
                        markerSamplePositions := markerSamplePositions c @ [marker3D],
                        numSamples := numSamples c + 1\<rparr>)))"
proof -
  have id: "find_marker_pose (markerPoses c) m = Some p \<Longrightarrow> MarkerId p = m" for m p
    by (simp add: find_marker_pose_Some)
  show ?thesis using assms
    by (auto simp: Calibrate_def Let_def id split: option.splits if_splits)
qed

lemma Calibrate_false_keeps:
  assumes "\<not> fst (Calibrate detect svd colorFrame depthFrame frameWidth frameHeight c)"
  shows "worldR (snd (Calibrate detect svd colorFrame depthFrame frameWidth frameHeight c))
           = worldR c"
    and "worldT (snd (Calibrate detect svd colorFrame depthFrame frameWidth frameHeight c))
           = worldT c"
    and "isCalibrated (snd (Calibrate detect svd colorFrame depthFrame frameWidth frameHeight c))
           = isCalibrated c"
    and "markerPoses (snd (Calibrate detect svd colorFrame depthFrame frameWidth frameHeight c))
           = markerPoses c"
proof -
  let ?c' = "snd (Calibrate detect svd colorFrame depthFrame frameWidth frameHeight c)"
  from Calibrate_False_cases[OF assms]
  consider (same) "?c' = c"
    | (marked) m where "?c' = c\<lparr>usedMarkerId := m\<rparr>"
    | (sampled) m s where
        "?c' = c\<lparr>usedMarkerId := m, markerSamplePositions := markerSamplePositions c @ [s],
                 numSamples := numSamples c + 1\<rparr>"
    by blast
  then have "worldR ?c' = worldR c \<and> worldT ?c' = worldT c
      \<and> isCalibrated ?c' = isCalibrated c \<and> markerPoses ?c' = markerPoses c"
  proof cases
    case same
    then show ?thesis by (simp only: simp_thms)
  next
    case marked
    then show ?thesis by simp
  next
    case sampled
    then show ?thesis by simp
  qed
  then show "worldR ?c' = worldR c" "worldT ?c' = worldT c"
    "isCalibrated ?c' = isCalibrated c" "markerPoses ?c' = markerPoses c"
    by blast+
qed

lemma Calibrate_false_sampled:
  assumes nf: "\<not> fst (Calibrate detect svd (Some color) (Some depth) frameWidth frameHeight c)"
    and det: "detect color frameHeight frameWidth = Some marker"
    and pose: "find_marker_pose (markerPoses c) (marker_Id marker) = Some markerPose"
    and depth: "Get3DMarkerCorners depth frameWidth (Corners marker) = Some marker3D"
  shows "snd (Calibrate detect svd (Some color) (Some depth) frameWidth frameHeight c)
     = c\<lparr>usedMarkerId := marker_Id marker,
         markerSamplePositions := markerSamplePositions c @ [marker3D],
         numSamples := numSamples c + 1\<rparr>"
proof -
  have "\<not> NumRequiredSamples \<le> numSamples c + 1"
    using nf det pose depth unfolding Calibrate_True_iff by blast
  then have "numSamples c + 1 < NumRequiredSamples"
    by simp
  with det pose depth show ?thesis
    by (simp add: Calibrate_sampled)
qed

section \<open>The example calibration session\<close>

lemma example_hyps:
  "example_detect () 4 4 = Some example_marker"
  "find_marker_pose (markerPoses nineteen_samples) (marker_Id example_marker) = Some example_pose"
  "find_marker_pose (markerPoses configured_calibration) (marker_Id example_marker)
     = Some example_pose"
  "Get3DMarkerCorners flat_depth 4 (Corners example_marker) = Some [Point3f_xyz 0 0 1]"
  "Get3DMarkerCorners no_depth 4 (Corners example_marker) = None"
  "NumRequiredSamples \<le> numSamples nineteen_samples + 1"
  "numSamples configured_calibration + 1 < NumRequiredSamples"
  by (simp_all add: example_detect_def example_marker_def nineteen_samples_def
      configured_calibration_def Calibration_new_def example_pose_def Let_def
      interpolate_corner_def flat_depth_def no_depth_def Point3f_xyz_def Point3f_default_def
      trunc_int_def NumRequiredSamples_def)



section \<open>Claim C5: the stored world transform and its application\<close>



section \<open>Claim C8: a call that does not finalise\<close>

text \<open>
  Claim C8 as stated fails on \<open>usedMarkerId\<close>.  With marker 0 configured and detected
  but no depth at its corner, \<open>Calibrate\<close> returns false and has already stored the
  detected marker's id: \<open>usedMarkerId\<close> goes from \<open>-1\<close> to \<open>0\<close>.
\<close>

theorem Calibrate_false_changes_usedMarkerId:
  "\<not> fst (Calibrate example_detect example_svd (Some ()) (Some no_depth) 4 4
           configured_calibration)
   \<and> usedMarkerId (snd (Calibrate example_detect example_svd (Some ()) (Some no_depth) 4 4
        configured_calibration)) = 0
   \<and> usedMarkerId configured_calibration = - 1"
  by (simp add: Calibrate_def example_detect_def example_marker_def
      configured_calibration_def Calibration_new_def example_pose_def Let_def
      interpolate_corner_def no_depth_def Point3f_default_def trunc_int_def
      NumRequiredSamples_def)

text \<open>
  Claim C8, amended.  \<open>Calibrate\<close> returns true exactly when a marker is detected, its id
  is configured, all its corners have depth and the sample just added is at least the
  twentieth.  A call that returns false leaves \<open>worldR\<close>, \<open>worldT\<close>, \<open>isCalibrated\<close> and the
  configured poses unchanged.  It leaves the whole calibration state unchanged when a frame
  is missing, no marker is detected or the detected id is not configured.  When the
  detected id is configured it sets \<open>usedMarkerId\<close> to that id; if a corner has no depth
  the sample buffer and the sample count stay as they were, and if all corners have depth
  the buffer is the old buffer followed by the corners of this call and the count is one
  more.
\<close>

theorem Calibrate_not_finalised:
  "(fst (Calibrate detect svd colorFrame depthFrame frameWidth frameHeight c) \<longleftrightarrow>
     (\<exists>color depth marker markerPose marker3D.
        colorFrame = Some color \<and> depthFrame = Some depth \<and>
        detect color frameHeight frameWidth = Some marker \<and>
        find_marker_pose (markerPoses c) (marker_Id marker) = Some markerPose \<and>
        Get3DMarkerCorners depth frameWidth (Corners marker) = Some marker3D \<and>
        NumRequiredSamples \<le> numSamples c + 1))
   \<and> (\<not> fst (Calibrate detect svd colorFrame depthFrame frameWidth frameHeight c) \<longrightarrow>
       (let c' = snd (Calibrate detect svd colorFrame depthFrame frameWidth frameHeight c) in
        worldR c' = worldR c \<and> worldT c' = worldT c \<and> isCalibrated c' = isCalibrated c \<and>
        markerPoses c' = markerPoses c \<and>
        (colorFrame = None \<or> depthFrame = None \<longrightarrow> c' = c) \<and>
        (\<forall>color depth. colorFrame = Some color \<and> depthFrame = Some depth \<longrightarrow>
           (detect color frameHeight frameWidth = None \<longrightarrow> c' = c) \<and>
           (\<forall>marker. detect color frameHeight frameWidth = Some marker \<longrightarrow>
              (find_marker_pose (markerPoses c) (marker_Id marker) = None \<longrightarrow> c' = c) \<and>
              (\<forall>markerPose.
                 find_marker_pose (markerPoses c) (marker_Id marker) = Some markerPose \<longrightarrow>
                 usedMarkerId c' = marker_Id marker \<and>
                 (Get3DMarkerCorners depth frameWidth (Corners marker) = None \<longrightarrow>
                    markerSamplePositions c' = markerSamplePositions c \<and>
                    numSamples c' = numSamples c) \<and>
                 (\<forall>marker3D.
                    Get3DMarkerCorners depth frameWidth (Corners marker) = Some marker3D \<longrightarrow>
                    markerSamplePositions c' = markerSamplePositions c @ [marker3D] \<and>
                    numSamples c' = numSamples c + 1))))))"
proof (intro conjI impI)
  show "fst (Calibrate detect svd colorFrame depthFrame frameWidth frameHeight c) \<longleftrightarrow>
     (\<exists>color depth marker markerPose marker3D.
        colorFrame = Some color \<and> depthFrame = Some depth \<and>
        detect color frameHeight frameWidth = Some marker \<and>
        find_marker_pose (markerPoses c) (marker_Id marker) = Some markerPose \<and>
        Get3DMarkerCorners depth frameWidth (Corners marker) = Some marker3D \<and>
        NumRequiredSamples \<le> numSamples c + 1)"
    by (rule Calibrate_True_iff)
next
  let ?c' = "snd (Calibrate detect svd colorFrame depthFrame frameWidth frameHeight c)"
  assume nf: "\<not> fst (Calibrate detect svd colorFrame depthFrame frameWidth frameHeight c)"
  note keeps = Calibrate_false_keeps[OF nf]
  have null: "colorFrame = None \<or> depthFrame = None \<longrightarrow> ?c' = c"
    by (simp add: Calibrate_null)
  have present: "(detect color frameHeight frameWidth = None \<longrightarrow> ?c' = c) \<and>
           (\<forall>marker. detect color frameHeight frameWidth = Some marker \<longrightarrow>
              (find_marker_pose (markerPoses c) (marker_Id marker) = None \<longrightarrow> ?c' = c) \<and>
              (\<forall>markerPose.
                 find_marker_pose (markerPoses c) (marker_Id marker) = Some markerPose \<longrightarrow>
                 usedMarkerId ?c' = marker_Id marker \<and>
                 (Get3DMarkerCorners depth frameWidth (Corners marker) = None \<longrightarrow>
                    markerSamplePositions ?c' = markerSamplePositions c \<and>
                    numSamples ?c' = numSamples c) \<and>
                 (\<forall>marker3D.
                    Get3DMarkerCorners depth frameWidth (Corners marker) = Some marker3D \<longrightarrow>
                    markerSamplePositions ?c' = markerSamplePositions c @ [marker3D] \<and>
                    numSamples ?c' = numSamples c + 1)))"
    if frames: "colorFrame = Some color" "depthFrame = Some depth" for color depth
  proof (intro conjI allI impI)
    assume "detect color frameHeight frameWidth = None"
    then show "?c' = c"
      unfolding frames by (simp add: Calibrate_no_marker)
  next
    fix marker
    assume "detect color frameHeight frameWidth = Some marker"
      and "find_marker_pose (markerPoses c) (marker_Id marker) = None"
    then show "?c' = c"
      unfolding frames by (simp add: Calibrate_unknown_marker)
  next
    fix marker markerPose
    assume det: "detect color frameHeight frameWidth = Some marker"
      and pose: "find_marker_pose (markerPoses c) (marker_Id marker) = Some markerPose"
    have none: "?c' = c\<lparr>usedMarkerId := marker_Id marker\<rparr>"
      if "Get3DMarkerCorners depth frameWidth (Corners marker) = None"
      using det pose that unfolding frames by (simp add: Calibrate_no_depth)
    have some: "?c' = c\<lparr>usedMarkerId := marker_Id marker,
         markerSamplePositions := markerSamplePositions c @ [marker3D],
         numSamples := numSamples c + 1\<rparr>"
      if "Get3DMarkerCorners depth frameWidth (Corners marker) = Some marker3D" for marker3D
      using nf det pose that unfolding frames by (rule Calibrate_false_sampled)
    show "usedMarkerId ?c' = marker_Id marker"
    proof (cases "Get3DMarkerCorners depth frameWidth (Corners marker)")
      case None
      from none[OF this] show ?thesis by simp
    next
      case (Some marker3D)
      from some[OF this] show ?thesis by simp
    qed
    {
      assume "Get3DMarkerCorners depth frameWidth (Corners marker) = None"
      from none[OF this] show "markerSamplePositions ?c' = markerSamplePositions c"
        by simp
    }
    {
      assume "Get3DMarkerCorners depth frameWidth (Corners marker) = None"
      from none[OF this] show "numSamples ?c' = numSamples c"
        by simp
    }
    {
      fix marker3D
      assume "Get3DMarkerCorners depth frameWidth (Corners marker) = Some marker3D"
      from some[OF this] show "markerSamplePositions ?c' = markerSamplePositions c @ [marker3D]"
        by simp
    }
    {
      fix marker3D
      assume "Get3DMarkerCorners depth frameWidth (Corners marker) = Some marker3D"
      from some[OF this] show "numSamples ?c' = numSamples c + 1"
        by simp
    }
  qed
  from keeps null present
  show "let c' = snd (Calibrate detect svd colorFrame depthFrame frameWidth frameHeight c) in
        worldR c' = worldR c \<and> worldT c' = worldT c \<and> isCalibrated c' = isCalibrated c \<and>
        markerPoses c' = markerPoses c \<and>
        (colorFrame = None \<or> depthFrame = None \<longrightarrow> c' = c) \<and>
        (\<forall>color depth. colorFrame = Some color \<and> depthFrame = Some depth \<longrightarrow>
           (detect color frameHeight frameWidth = None \<longrightarrow> c' = c) \<and>
           (\<forall>marker. detect color frameHeight frameWidth = Some marker \<longrightarrow>
              (find_marker_pose (markerPoses c) (marker_Id marker) = None \<longrightarrow> c' = c) \<and>
              (\<forall>markerPose.
                 find_marker_pose (markerPoses c) (marker_Id marker) = Some markerPose \<longrightarrow>
                 usedMarkerId c' = marker_Id marker \<and>
                 (Get3DMarkerCorners depth frameWidth (Corners marker) = None \<longrightarrow>
                    markerSamplePositions c' = markerSamplePositions c \<and>
                    numSamples c' = numSamples c) \<and>
                 (\<forall>marker3D.
                    Get3DMarkerCorners depth frameWidth (Corners marker) = Some marker3D \<longrightarrow>
                    markerSamplePositions c' = markerSamplePositions c @ [marker3D] \<and>
                    numSamples c' = numSamples c + 1))))"
    unfolding Let_def by (intro conjI allI impI; blast)
qed

theorem Calibrate_not_finalised_witness:
  "\<not> fst (Calibrate example_detect example_svd (Some ()) (Some no_depth) 4 4
           configured_calibration)
   \<and> usedMarkerId configured_calibration = - 1
   \<and> usedMarkerId (snd (Calibrate example_detect example_svd (Some ()) (Some no_depth) 4 4
        configured_calibration)) = 0
   \<and> markerSamplePositions (snd (Calibrate example_detect example_svd (Some ())
        (Some no_depth) 4 4 configured_calibration)) = []
   \<and> numSamples (snd (Calibrate example_detect example_svd (Some ()) (Some no_depth) 4 4
        configured_calibration)) = 0
   \<and> worldR (snd (Calibrate example_detect example_svd (Some ()) (Some no_depth) 4 4
        configured_calibration)) = worldR configured_calibration
   \<and> worldT (snd (Calibrate example_detect example_svd (Some ()) (Some no_depth) 4 4
        configured_calibration)) = worldT configured_calibration
   \<and> \<not> isCalibrated (snd (Calibrate example_detect example_svd (Some ()) (Some no_depth) 4 4
        configured_calibration))
   \<and> \<not> fst (Calibrate example_detect example_svd (Some ()) (Some flat_depth) 4 4
           configured_calibration)
   \<and> usedMarkerId (snd (Calibrate example_detect example_svd (Some ()) (Some flat_depth) 4 4
        configured_calibration)) = 0
   \<and> markerSamplePositions (snd (Calibrate example_detect example_svd (Some ())
        (Some flat_depth) 4 4 configured_calibration)) = [[Point3f_xyz 0 0 1]]
   \<and> numSamples (snd (Calibrate example_detect example_svd (Some ()) (Some flat_depth) 4 4
        configured_calibration)) = 1"
proof -
  let ?c1 = "snd (Calibrate example_detect example_svd (Some ()) (Some no_depth) 4 4
      configured_calibration)"
  let ?c2 = "snd (Calibrate example_detect example_svd (Some ()) (Some flat_depth) 4 4
      configured_calibration)"
  have f1: "\<not> fst (Calibrate example_detect example_svd (Some ()) (Some no_depth) 4 4
      configured_calibration)"
    using example_hyps(1,3,5) by (simp add: Calibrate_no_depth)
  have f2: "\<not> fst (Calibrate example_detect example_svd (Some ()) (Some flat_depth) 4 4
      configured_calibration)"
    using example_hyps(1,3,4,7) by (simp add: Calibrate_sampled)
  have init: "usedMarkerId configured_calibration = - 1"
    "markerSamplePositions configured_calibration = []"
    "numSamples configured_calibration = 0"
    "\<not> isCalibrated configured_calibration"
    "marker_Id example_marker = 0"
    by (simp_all add: configured_calibration_def Calibration_new_def example_marker_def)
  from Calibrate_not_finalised[of example_detect example_svd "Some ()" "Some no_depth" 4 4
      configured_calibration] f1 example_hyps(1,3,5)
  have n: "worldR ?c1 = worldR configured_calibration"
    "worldT ?c1 = worldT configured_calibration"
    "isCalibrated ?c1 = isCalibrated configured_calibration"
    "usedMarkerId ?c1 = marker_Id example_marker"
    "markerSamplePositions ?c1 = markerSamplePositions configured_calibration"
    "numSamples ?c1 = numSamples configured_calibration"
    unfolding Let_def by blast+
  from Calibrate_not_finalised[of example_detect example_svd "Some ()" "Some flat_depth" 4 4
      configured_calibration] f2 example_hyps(1,3,4)
  have s: "usedMarkerId ?c2 = marker_Id example_marker"
    "markerSamplePositions ?c2 = markerSamplePositions configured_calibration @ [[Point3f_xyz 0 0 1]]"
    "numSamples ?c2 = numSamples configured_calibration + 1"
    unfolding Let_def by blast+
  from f1 f2 n s init show ?thesis
    by (simp only: simp_thms append_Nil add_0)
qed

section \<open>Claim C6: the calibration file does not round-trip\<close>

text \<open>
  Claim C6 fails on the code.  \<open>SaveCalibration\<close> writes the three numbers of a row of
  \<open>worldR\<close> with nothing between them.  For the calibrated state with the identity
  rotation, translation \<open>(1, 0, -1)\<close> and marker 0 the file reads
  \<open>1 0 -1 / 100 / 010 / 001 / 0 / 1\<close> (a slash for a line break).  \<open>LoadCalibration\<close> into a
  fresh \<open>Calibration\<close> reads the first row as \<open>100, 10, 1\<close>, takes the marker id and the
  flag for the next two entries and finds the file at its end: \<open>usedMarkerId\<close> and
  \<open>isCalibrated\<close> keep their initial values \<open>-1\<close> and false.
\<close>

theorem LoadCalibration_after_SaveCalibration_differs:
  "SaveCalibration saved_example
     = Some (''1 0 -1 '' @ endl @ ''100'' @ endl @ ''010'' @ endl @ ''001'' @ endl
             @ ''0'' @ endl @ ''1'' @ endl)
   \<and> LoadCalibration (SaveCalibration saved_example) Calibration_new
     = (True, Calibration_new\<lparr>worldT := [1, 0, - 1],
                                worldR := [[100, 10, 1], [0, 1, 0], [0, 0, 1]]\<rparr>)
   \<and> snd (LoadCalibration (SaveCalibration saved_example) Calibration_new) \<noteq> saved_example
   \<and> worldR saved_example = [[1, 0, 0], [0, 1, 0], [0, 0, 1]]
   \<and> isCalibrated saved_example
   \<and> \<not> isCalibrated (snd (LoadCalibration (SaveCalibration saved_example) Calibration_new))"
  by code_simp

section \<open>Claim C7: the marker code reader\<close>

lemma cell_bit_cases: "cell_bit t \<in> {0, 1}"
  by (simp add: cell_bit_def)

lemma read_data_bits_table:
  assumes "b0 \<in> {0, 1}" "b1 \<in> {0, 1}" "b2 \<in> {0, 1}" "b3 \<in> {0, 1}" "b4 \<in> {0, 1}"
    "b5 \<in> {0, 1}" "b6 \<in> {0, 1}" "b7 \<in> {0, 1}" "b8 \<in> {0, 1 :: int}"
  shows "(case read_data_bits [b0, b1, b2, b3, b4, b5, b6, b7, b8] [0, 1, 2, 3] (0, 0) of
        None \<Rightarrow> - 1
      | Some (code, ones) \<Rightarrow>
          (let even = (ones mod 2 = 0) in
           if (even \<and> [b0, b1, b2, b3, b4, b5, b6, b7, b8] ! 8 = 0)
              \<or> (\<not> even \<and> [b0, b1, b2, b3, b4, b5, b6, b7, b8] ! 8 = 1) then - 1 else code))
     = (if b4 = 1 - b0 \<and> b5 = 1 - b1 \<and> b6 = 1 - b2 \<and> b7 = 1 - b3
           \<and> b8 = 1 - (b0 + b1 + b2 + b3) mod 2
        then 8 * b0 + 4 * b1 + 2 * b2 + b3 else - 1)"
  using assms by (elim insertE emptyE) (simp_all add: Let_def)

lemma GetCode_nine:
  "GetCode [c0, c1, c2, c3, c4, c5, c6, c7, c8]
     = (if cell_bit c4 = 1 - cell_bit c0 \<and> cell_bit c5 = 1 - cell_bit c1
           \<and> cell_bit c6 = 1 - cell_bit c2 \<and> cell_bit c7 = 1 - cell_bit c3
           \<and> cell_bit c8 = 1 - (cell_bit c0 + cell_bit c1 + cell_bit c2 + cell_bit c3) mod 2
        then 8 * cell_bit c0 + 4 * cell_bit c1 + 2 * cell_bit c2 + cell_bit c3 else - 1)"
  unfolding GetCode_def Let_def upt4 list.map
  by (rule read_data_bits_table[unfolded Let_def]) (rule cell_bit_cases)+

lemma length_nine:
  assumes "length xs = 9"
  obtains c0 c1 c2 c3 c4 c5 c6 c7 c8 where "xs = [c0, c1, c2, c3, c4, c5, c6, c7, c8]"
proof -
  from assms have "length xs = Suc (Suc (Suc (Suc (Suc (Suc (Suc (Suc (Suc 0))))))))"
    by simp
  then show ?thesis using that by (auto simp: length_Suc_conv)
qed

text \<open>
  Claim C7 as stated fails on the parity cell.  The patch with data bits \<open>0000\<close>, the
  complement \<open>1111\<close> and parity cell 0 meets the stated conditions (an even number of
  ones, parity bit 0) and is rejected; the same patch with parity cell 1 does not meet
  them and is accepted with code 0.
\<close>

theorem GetCode_parity_counterexample:
  "spec_marker_accepts (map cell_bit [0, 0, 0, 0, 255, 255, 255, 255, 0])
   \<and> GetCode [0, 0, 0, 0, 255, 255, 255, 255, 0] = - 1
   \<and> \<not> spec_marker_accepts (map cell_bit [0, 0, 0, 0, 255, 255, 255, 255, 255])
   \<and> GetCode [0, 0, 0, 0, 255, 255, 255, 255, 255] = 0"
  by code_simp

text \<open>
  Claim C7, amended.  The reader accepts a patch (returns a code \<open>\<ge> 0\<close>) exactly when
  cells 4 to 7 are the complement of the data cells 0 to 3 and the parity cell 8 is the
  complement of the parity of the four data bits: 1 for an even number of ones, 0 for
  an odd number.  It then returns the data bits read as a binary number, cell 0 first;
  every other patch is rejected with \<open>-1\<close>.
\<close>

theorem GetCode_accepts_iff:
  assumes "length cells = 9"
  shows "let vals = map cell_bit cells in
     (0 \<le> GetCode cells \<longleftrightarrow>
        vals ! 4 = 1 - vals ! 0 \<and> vals ! 5 = 1 - vals ! 1 \<and> vals ! 6 = 1 - vals ! 2
        \<and> vals ! 7 = 1 - vals ! 3
        \<and> vals ! 8 = 1 - (vals ! 0 + vals ! 1 + vals ! 2 + vals ! 3) mod 2)
     \<and> (GetCode cells = - 1
        \<or> GetCode cells = 8 * vals ! 0 + 4 * vals ! 1 + 2 * vals ! 2 + vals ! 3)"
proof -
  from assms obtain c0 c1 c2 c3 c4 c5 c6 c7 c8 where
    cells: "cells = [c0, c1, c2, c3, c4, c5, c6, c7, c8]" by (rule length_nine)
  have nonneg: "0 \<le> 8 * cell_bit c0 + 4 * cell_bit c1 + 2 * cell_bit c2 + cell_bit c3"
    using cell_bit_cases[of c0] cell_bit_cases[of c1] cell_bit_cases[of c2]
      cell_bit_cases[of c3] by auto
  show ?thesis
    unfolding cells Let_def using nonneg by (simp add: GetCode_nine)
qed

theorem GetCode_accepts_iff_witness:
  "length [255, 0, 255, 255, 0, 255, 0, 0, 0 :: int] = 9
   \<and> 0 \<le> GetCode [255, 0, 255, 255, 0, 255, 0, 0, 0]
   \<and> GetCode [255, 0, 255, 255, 0, 255, 0, 0, 0] = 11"
  using GetCode_accepts_iff[of "[255, 0, 255, 255, 0, 255, 0, 0, 0]"]
  by (auto simp: Let_def cell_bit_def CodeDetectionBitThreshold_def)

section \<open>Claim C9: when the master is started\<close>

text \<open>
  Claim C9 fails on the code.  Three cameras \<open>A001\<close>, \<open>A000\<close>, \<open>A002\<close> (client indices
  0, 1, 2): \<open>EnableSync\<close> makes client 1 the master and clients 0 and 2 subordinates with
  offsets 1 and 2, as the claim says.  When the master and then subordinate 0 confirm,
  the server's \<open>StartMaster\<close> looks for a client that is a subordinate and not started;
  client 2 has not confirmed, its state is still \<open>Unknown\<close>, so none is found and the
  master is started before subordinate 2 has confirmed.  When subordinate 0 confirms
  before the master does, \<open>waitForSubordinateStart\<close> is cleared with no master in sight,
  and the master is never started although every client confirms afterwards.
\<close>

theorem StartMaster_before_all_subordinates:
  "native_calls (OnConfirmSyncState 0 Subordinate
       (OnConfirmSyncState 1 Master (EnableSync three_cameras)))
     = [EnableSync_call 1 Master 0, EnableSync_call 0 Subordinate 1,
        EnableSync_call 2 Subordinate 2, StartMaster_call 1]
   \<and> CurrentSyncState (liveScanClients (OnConfirmSyncState 0 Subordinate
       (OnConfirmSyncState 1 Master (EnableSync three_cameras))) ! 2) = Unknown
   \<and> \<not> IsStarted (liveScanClients (OnConfirmSyncState 0 Subordinate
       (OnConfirmSyncState 1 Master (EnableSync three_cameras))) ! 2)
   \<and> native_calls (OnConfirmSyncState 2 Subordinate (OnConfirmSyncState 1 Master
       (OnConfirmSyncState 0 Subordinate (EnableSync three_cameras))))
     = [EnableSync_call 1 Master 0, EnableSync_call 0 Subordinate 1,
        EnableSync_call 2 Subordinate 2]"
  by code_simp

section \<open>The server's scale: bounds on the logarithm\<close>

lemma to_short_id: "- 32768 \<le> i \<Longrightarrow> i < 32768 \<Longrightarrow> to_short i = i"
  by (simp add: to_short_def sint_sbintrunc' signed_take_bit_int_eq_self)

lemma trunc_int_short:
  assumes "- 32768 \<le> v" "v < 32768"
  shows "to_short (trunc_int v) = trunc_int v"
proof (rule to_short_id)
  show "- 32768 \<le> trunc_int v"
    using assms by (simp add: trunc_int_def le_floor_iff le_ceiling_iff)
  show "trunc_int v < 32768"
    using assms by (simp add: trunc_int_def floor_less_iff ceiling_less_iff)
qed

text \<open>Partial sums of the exponential series bound \<open>exp\<close> from below, and from above
  with the Lagrange remainder.\<close>

lemma exp_lower_partial:
  fixes x :: real
  assumes "0 \<le> x"
  shows "(\<Sum>m<n. x ^ m / fact m) \<le> exp x"
proof -
  from Maclaurin_exp_le[of x n] obtain t where
    t: "exp x = (\<Sum>m<n. x ^ m / fact m) + exp t / fact n * x ^ n" by blast
  have "0 \<le> exp t / fact n * x ^ n" using assms by simp
  with t show ?thesis by linarith
qed

lemma exp_upper_partial:
  fixes x :: real
  assumes "0 \<le> x" "x \<le> 1"
  shows "exp x \<le> (\<Sum>m<n. x ^ m / fact m) + 3 / fact n * x ^ n"
proof -
  from Maclaurin_exp_le[of x n] obtain t where
    t: "\<bar>t\<bar> \<le> \<bar>x\<bar>" "exp x = (\<Sum>m<n. x ^ m / fact m) + exp t / fact n * x ^ n" by blast
  have "exp t \<le> exp x" using t(1) assms by simp
  also have "exp x \<le> 1 + x + x\<^sup>2" using assms by (rule exp_bound)
  also have "\<dots> \<le> 1 + 1 + 1"
    using assms by (intro add_mono power_le_one) simp_all
  finally have "exp t \<le> 3" by simp
  then have "exp t / fact n * x ^ n \<le> 3 / fact n * x ^ n"
    using assms by (intro mult_right_mono divide_right_mono) simp_all
  with t show ?thesis by linarith
qed

lemma sum7: "(\<Sum>m<7. f m) = f 0 + f 1 + f 2 + f 3 + f 4 + f 5 + (f (6::nat) :: real)"
  by (simp add: eval_nat_numeral)

lemma exp_lo: "(177845 / 100000 :: real) \<le> exp (4606 / 8000)"
proof -
  have "(177845 / 100000 :: real) \<le> (\<Sum>m<7. (4606 / 8000) ^ m / fact m)"
    by (simp add: sum7 fact_numeral power_divide)
  also have "\<dots> \<le> exp (4606 / 8000)" by (rule exp_lower_partial) simp
  finally show ?thesis .
qed

lemma exp_hi: "exp (4604 / 8000) \<le> (177803 / 100000 :: real)"
proof -
  have "exp (4604 / 8000 :: real)
          \<le> (\<Sum>m<7. (4604 / 8000) ^ m / fact m) + 3 / fact 7 * (4604 / 8000) ^ 7"
    by (rule exp_upper_partial) simp_all
  also have "\<dots> \<le> 177803 / 100000"
    by (simp add: sum7 fact_numeral power_divide)
  finally show ?thesis .
qed

lemma ln_100_upper: "ln (100 :: real) \<le> 4606 / 1000"
proof -
  have "(100 :: real) \<le> (177845 / 100000) ^ 8" by (simp add: power_divide)
  also have "\<dots> \<le> exp (4606 / 8000) ^ 8" using exp_lo by (intro power_mono) simp_all
  also have "\<dots> = exp (8 * (4606 / 8000))"
    by (simp only: exp_of_nat_mult[symmetric] of_nat_numeral)
  also have "\<dots> = exp (4606 / 1000)" by simp
  finally have "exp (ln 100) \<le> exp (4606 / 1000 :: real)" by simp
  then show ?thesis by (simp only: exp_le_cancel_iff)
qed

lemma ln_100_lower: "4604 / 1000 < ln (100 :: real)"
proof -
  have "exp (4604 / 1000 :: real) = exp (8 * (4604 / 8000))" by simp
  also have "\<dots> = exp (4604 / 8000) ^ 8"
    by (simp only: exp_of_nat_mult[symmetric] of_nat_numeral)
  also have "\<dots> \<le> (177803 / 100000) ^ 8" using exp_hi by (intro power_mono) simp_all
  also have "\<dots> < 100" by (simp add: power_divide)
  finally have "exp (4604 / 1000 :: real) < exp (ln 100)" by simp
  then show ?thesis by (simp only: exp_less_cancel_iff)
qed

lemma ln_count_bounds:
  assumes "1 \<le> N" "N < 2 ^ 31"
  shows "0 \<le> ln (real_of_int N)" "ln (real_of_int N) < 31"
proof -
  show "0 \<le> ln (real_of_int N)" using assms by simp
  have "ln (real_of_int N) \<le> ln (2 ^ 31)"
    using assms by (intro ln_mono) simp_all
  also have "\<dots> = 31 * ln (2 :: real)" by (simp only: ln_realpow of_nat_numeral)
  also have "\<dots> < 31" using ln_2_less_1 by simp
  finally show "ln (real_of_int N) < 31" .
qed

section \<open>The server's scale: \<open>MaxScale\<close> and \<open>DetermineScale\<close>\<close>

lemma MaxScale_cases:
  assumes "849 \<le> 1 / mp" "1 / mp < 851"
  shows "MaxScale mp = 849 \<or> MaxScale mp = 850"
proof -
  have fl: "\<lfloor>1 / mp\<rfloor> = 849 \<or> \<lfloor>1 / mp\<rfloor> = 850"
  proof (cases "1 / mp < 850")
    case True
    with assms have "\<lfloor>1 / mp\<rfloor> = 849" by (simp add: floor_eq_iff)
    then show ?thesis by simp
  next
    case False
    with assms have "\<lfloor>1 / mp\<rfloor> = 850" by (simp add: floor_eq_iff)
    then show ?thesis by simp
  qed
  have "0 \<le> 1 / mp" using assms by linarith
  then have tr: "trunc_int (1 / mp) = \<lfloor>1 / mp\<rfloor>" by (rule trunc_int_nonneg)
  have "- 32768 \<le> 1 / mp" "1 / mp < 32768" using assms by linarith+
  then have "to_short (trunc_int (1 / mp)) = trunc_int (1 / mp)" by (rule trunc_int_short)
  with fl tr show ?thesis by (simp add: MaxScale_def)
qed

lemma MaxScale_exact: "MaxScale MinPrecision = 850"
  by (simp add: MaxScale_def MinPrecision_def Range_def trunc_int_def to_short_def)

lemma MaxScale_single: "MaxScale MinPrecision_single = 849"
proof -
  have "\<lfloor>1 / MinPrecision_single\<rfloor> = 849"
    by (simp add: MinPrecision_single_def floor_eq_iff)
  then show ?thesis
    by (simp add: MaxScale_def trunc_int_def to_short_def MinPrecision_single_def)
qed

lemma DetermineScale_eq:
  assumes "1 \<le> N" "N < 2 ^ 31"
  shows "DetermineScale mp N
           = min (MaxScale mp) (max 400 (trunc_int (6700 - 500 * ln (real_of_int N))))"
proof -
  from ln_count_bounds[OF assms]
  have "- 32768 \<le> 6700 - 500 * ln (real_of_int N)" "6700 - 500 * ln (real_of_int N) < 32768"
    by simp_all
  from trunc_int_short[OF this] assms show ?thesis
    by (simp add: DetermineScale_def ScaleFnOffset_def ScaleFnFactor_def MinScale_def Let_def
        max.commute)
qed

lemma formula_at_100: "trunc_int (6700 - 500 * ln 100) = 4397"
proof -
  have "4397 \<le> 6700 - 500 * ln (100::real)" using ln_100_upper by simp
  moreover have "6700 - 500 * ln (100::real) < 4398" using ln_100_lower by simp
  ultimately have "\<lfloor>6700 - 500 * ln (100::real)\<rfloor> = 4397"
    by (simp add: floor_eq_iff)
  moreover have "0 \<le> 6700 - 500 * ln (100::real)" using ln_100_upper by simp
  ultimately show ?thesis by (simp add: trunc_int_def)
qed

lemma DetermineScale_100:
  assumes "MaxScale mp \<le> 850"
  shows "DetermineScale mp 100 = MaxScale mp"
proof -
  have "DetermineScale mp 100
      = min (MaxScale mp) (max 400 (trunc_int (6700 - 500 * ln (real_of_int 100))))"
    by (rule DetermineScale_eq) simp_all
  then show ?thesis using assms formula_at_100 by simp
qed

lemma DetermineScale_range:
  assumes "849 \<le> 1 / mp" "1 / mp < 851"
  shows "400 \<le> DetermineScale mp N" "DetermineScale mp N \<le> 850"
  using MaxScale_cases[OF assms]
  by (auto simp: DetermineScale_def MinScale_def Let_def)

lemma MinPrecision_admissible: "849 \<le> 1 / MinPrecision" "1 / MinPrecision < 851"
  by (simp_all add: MinPrecision_def Range_def)

lemma spec_scale_100:
  assumes "4397 \<le> 255 / mp"
  shows "4397 \<le> spec_scale mp 100"
proof -
  have "4397 \<le> 6700 - 500 * ln (100::real) + 1 / 2" using ln_100_upper by simp
  then have "4397 \<le> round (6700 - 500 * ln (100::real))"
    by (simp add: round_def le_floor_iff)
  moreover have "4397 \<le> \<lfloor>255 / mp\<rfloor>" using assms by (simp add: le_floor_iff)
  ultimately show ?thesis by (simp add: spec_scale_def)
qed

section \<open>Claim C3: the per-frame scale\<close>

text \<open>
  Claim C3 as stated fails.  For 100 points the code returns \<open>MaxScale\<close>, which is
  \<open>(short)(1 / MinPrecision)\<close>: 850 in exact arithmetic, 849 for the single precision
  constant.  The stated formula, with its upper clamp \<open>255 / minPrecision\<close>, gives at
  least 4397.
\<close>

theorem DetermineScale_100_counterexample:
  "DetermineScale MinPrecision 100 = 850
   \<and> DetermineScale MinPrecision_single 100 = 849
   \<and> 4397 \<le> spec_scale MinPrecision 100
   \<and> 4397 \<le> spec_scale MinPrecision_single 100"
proof -
  have "DetermineScale MinPrecision 100 = 850"
    using DetermineScale_100[of MinPrecision] MaxScale_exact by simp
  moreover have "DetermineScale MinPrecision_single 100 = 849"
    using DetermineScale_100[of MinPrecision_single] MaxScale_single by simp
  moreover have "4397 \<le> spec_scale MinPrecision 100"
    by (rule spec_scale_100) (simp add: MinPrecision_def Range_def)
  moreover have "4397 \<le> spec_scale MinPrecision_single 100"
    by (rule spec_scale_100) (simp add: MinPrecision_single_def)
  ultimately show ?thesis by (simp only: simp_thms)
qed

text \<open>
  Claim C3, amended.  For a point count \<open>N\<close> from 1 up to the largest \<open>int\<close>, the scale is
  \<open>clamp(trunc(6700 - 500 ln N), 400, MaxScale)\<close> with truncation towards zero and
  \<open>MaxScale = (short)(1 / MinPrecision)\<close>, which is 850 or 849 for a value of the constant
  \<open>MinPrecision\<close> next to \<open>0.3 / 255\<close>.  For \<open>N = 100\<close> the formula yields 4397 before
  clamping, and the scale is \<open>MaxScale\<close>.
\<close>

theorem DetermineScale_formula:
  assumes "849 \<le> 1 / mp" "1 / mp < 851" "1 \<le> N" "N < 2 ^ 31"
  shows "DetermineScale mp N
           = min (MaxScale mp) (max 400 (trunc_int (6700 - 500 * ln (real_of_int N))))
         \<and> (MaxScale mp = 849 \<or> MaxScale mp = 850)
         \<and> trunc_int (6700 - 500 * ln 100) = 4397
         \<and> DetermineScale mp 100 = MaxScale mp"
proof -
  note M = MaxScale_cases[OF assms(1,2)]
  then have "MaxScale mp \<le> 850" by auto
  then have "DetermineScale mp 100 = MaxScale mp" by (rule DetermineScale_100)
  with DetermineScale_eq[OF assms(3,4)] M formula_at_100 show ?thesis by simp
qed

theorem DetermineScale_formula_witness:
  "849 \<le> 1 / MinPrecision \<and> 1 / MinPrecision < 851 \<and> (1::int) \<le> 100 \<and> (100::int) < 2 ^ 31
   \<and> DetermineScale MinPrecision 100 = 850
   \<and> trunc_int (6700 - 500 * ln 100) = 4397"
  using DetermineScale_formula[OF MinPrecision_admissible, of 100] MinPrecision_admissible
    MaxScale_exact by simp

section \<open>Claim C4: the wire round trip\<close>

lemma axis_round_trip:
  assumes S: "400 \<le> S" "S \<le> 850" and v: "\<bar>v - c\<bar> \<le> HalfRange"
  shows "\<bar>DecodeByteToFloat (EncodeFloatToByte v c S) c S - v\<bar> \<le> 1 / S"
proof -
  let ?t = "(v + HalfRange - c) * S"
  from v have d: "0 \<le> v + HalfRange - c" "v + HalfRange - c \<le> 3 / 10"
    unfolding HalfRange_def Range_def by linarith+
  have t0: "0 \<le> ?t" using d S by simp
  have "?t \<le> (3 / 10) * 850" using d S by (intro mult_mono) simp_all
  then have t1: "?t \<le> 255" by simp
  have enc: "EncodeFloatToByte v c S = word_of_int \<lfloor>?t\<rfloor>"
    using t0 t1 by (simp add: EncodeFloatToByte_def Let_def trunc_int_def min_def max_def)
  have f0: "0 \<le> \<lfloor>?t\<rfloor>" using t0 by simp
  have f1: "\<lfloor>?t\<rfloor> < 256" using t1 by (simp add: floor_less_iff)
  have "unat (word_of_int \<lfloor>?t\<rfloor> :: 8 word) = nat \<lfloor>?t\<rfloor>"
    using f0 f1 by (simp add: unsigned_of_int take_bit_int_eq_self)
  then have dec: "DecodeByteToFloat (EncodeFloatToByte v c S) c S
      = real_of_int \<lfloor>?t\<rfloor> / S - HalfRange + c"
    using f0 by (simp add: DecodeByteToFloat_def enc)
  have Spos: "0 < S" using S by simp
  have "v = ?t / S - HalfRange + c" using Spos by simp
  then have "DecodeByteToFloat (EncodeFloatToByte v c S) c S - v
               = (real_of_int \<lfloor>?t\<rfloor> - ?t) / S"
    unfolding dec by (simp add: diff_divide_distrib)
  moreover have "\<bar>real_of_int \<lfloor>?t\<rfloor> - ?t\<bar> \<le> 1" by linarith
  ultimately show ?thesis using Spos by (simp add: divide_le_cancel)
qed

text \<open>
  Claim C4.  For a scale \<open>S\<close> that \<open>DetermineScale\<close> returns and a point whose three
  coordinates lie within \<open>HalfRange\<close> of the axis centres \<open>(0, 0, HalfRange)\<close>, the
  receiver's \<open>DecodeByteToFloat\<close> of the byte that \<open>EncodeFloatToByte\<close> sends recovers each
  coordinate to within \<open>1 / S\<close>.
\<close>

theorem wire_round_trip:
  assumes "849 \<le> 1 / mp" "1 / mp < 851"
    and "\<bar>x - XRangeCenter\<bar> \<le> HalfRange" "\<bar>y - YRangeCenter\<bar> \<le> HalfRange"
    and "\<bar>z - ZRangeCenter\<bar> \<le> HalfRange"
  shows "let S = real_of_int (DetermineScale mp N) in
     \<bar>DecodeByteToFloat (EncodeFloatToByte x XRangeCenter S) XRangeCenter S - x\<bar> \<le> 1 / S
     \<and> \<bar>DecodeByteToFloat (EncodeFloatToByte y YRangeCenter S) YRangeCenter S - y\<bar> \<le> 1 / S
     \<and> \<bar>DecodeByteToFloat (EncodeFloatToByte z ZRangeCenter S) ZRangeCenter S - z\<bar> \<le> 1 / S"
proof -
  from DetermineScale_range[OF assms(1,2), of N]
  have S: "400 \<le> real_of_int (DetermineScale mp N)" "real_of_int (DetermineScale mp N) \<le> 850"
    by simp_all
  show ?thesis unfolding Let_def
    by (intro conjI axis_round_trip S assms)
qed

theorem wire_round_trip_witness:
  "849 \<le> 1 / MinPrecision \<and> 1 / MinPrecision < 851
   \<and> \<bar>0 - XRangeCenter\<bar> \<le> HalfRange \<and> \<bar>0 - YRangeCenter\<bar> \<le> HalfRange
   \<and> \<bar>15 / 100 - ZRangeCenter\<bar> \<le> HalfRange
   \<and> DetermineScale MinPrecision 100 = 850
   \<and> EncodeFloatToByte 0 XRangeCenter 850 = 127
   \<and> EncodeFloatToByte (15 / 100) ZRangeCenter 850 = 127
   \<and> \<bar>DecodeByteToFloat (EncodeFloatToByte 0 XRangeCenter 850) XRangeCenter 850 - 0\<bar> \<le> 1 / 850
   \<and> \<bar>DecodeByteToFloat (EncodeFloatToByte (15 / 100) ZRangeCenter 850) ZRangeCenter 850
        - 15 / 100\<bar> \<le> 1 / 850"
proof -
  have h: "\<bar>0 - XRangeCenter\<bar> \<le> HalfRange" "\<bar>0 - YRangeCenter\<bar> \<le> HalfRange"
    "\<bar>15 / 100 - ZRangeCenter\<bar> \<le> HalfRange"
    by (simp_all add: XRangeCenter_def YRangeCenter_def ZRangeCenter_def HalfRange_def Range_def)
  have s: "DetermineScale MinPrecision 100 = 850"
    using DetermineScale_100[of MinPrecision] MaxScale_exact by simp
  have e: "EncodeFloatToByte 0 XRangeCenter 850 = 127"
    "EncodeFloatToByte (15 / 100) ZRangeCenter 850 = 127"
    by (simp_all add: EncodeFloatToByte_def XRangeCenter_def ZRangeCenter_def HalfRange_def
        Range_def trunc_int_def Let_def)
  from wire_round_trip[OF MinPrecision_admissible h, of 100]
  have "\<bar>DecodeByteToFloat (EncodeFloatToByte 0 XRangeCenter 850) XRangeCenter 850 - 0\<bar> \<le> 1 / 850"
    "\<bar>DecodeByteToFloat (EncodeFloatToByte (15 / 100) ZRangeCenter 850) ZRangeCenter 850
        - 15 / 100\<bar> \<le> 1 / 850"
    unfolding s Let_def by simp_all
  with h s e MinPrecision_admissible show ?thesis by (simp only: simp_thms)
qed


end

